theory Spec2Isabelle
  imports Main "HOL-Library.Word"
begin

section \<open>The script host of gumscript.cpp\<close>

text \<open>
  The embedding follows \<^verbatim>\<open>gum/gumscript.cpp\<close>. The scripting engine, the eleven
  subsystem bindings and GLib are collaborators the file only calls: every call into
  one of them that the properties below speak about is recorded, in program order, in a
  list of \<open>call\<close>s carried by the script instance. What the engine answers (whether
  a source compiles, what a running program does) is a parameter of the operations, so
  every theorem holds for every engine.

  Not recorded: the \<^verbatim>\<open>Locker\<close>, \<^verbatim>\<open>Isolate::Scope\<close> and \<^verbatim>\<open>HandleScope\<close>
  guards, which every function takes first and releases last; the parent class's
  \<^verbatim>\<open>dispose\<close> and \<^verbatim>\<open>finalize\<close>; and \<^verbatim>\<open>gum_script_finalize\<close>, which only
  frees the source string of an instance that is going away.
\<close>

subsection \<open>Data\<close>

text \<open>The eleven binding members of \<^verbatim>\<open>struct _GumScriptPrivate\<close>, in declaration order.\<close>

datatype binding =
  Core | Memory | Process | Thread | Module | File | Socket
  | Interceptor | Stalker | Symbol | Instruction

text \<open>
  Calls made by the host code. \<open>ContextScopeEnter\<close> and \<open>ContextScopeLeave\<close> are the
  construction and the destruction of a \<^verbatim>\<open>Context::Scope\<close>; \<open>DeleteRawScript\<close> and
  \<open>DeleteContext\<close> are the two \<^verbatim>\<open>delete\<close> statements on the persistent handles.
\<close>

datatype call =
  Init binding
  | Realize binding
  | CoreFlush
  | Dispose binding
  | Finalize binding
  | ContextNew
  | ContextScopeEnter
  | ContextScopeLeave
  | ScriptCompile string
  | ScriptRun
  | DeleteRawScript
  | DeleteContext
  | CoreEmitMessage string
  | StalkerProcessPending

datatype persistent_context = PersistentContext

text \<open>A compiled program, identified by the combined source text it was compiled from.\<close>

datatype persistent_script = PersistentScript string

text \<open>
  The private data of one script instance. \<open>isolate\<close> is whether \<^verbatim>\<open>priv->isolate\<close>
  is non-null; \<open>context\<close> and \<open>raw_script\<close> are the two nullable pointers; \<open>calls\<close>
  is the record of calls made on behalf of this instance.
\<close>

record GumScriptPrivate =
  source :: string
  isolate :: bool
  "context" :: "persistent_context option"
  raw_script :: "persistent_script option"
  loaded :: bool
  calls :: "call list"

text \<open>
  How a call into the host ends other than by returning: a failed \<^verbatim>\<open>g_assert\<close>
  aborts the process, and so does reading through a null persistent handle.
\<close>

datatype abort = AssertionFailed string | NullDereference string

text \<open>
  What an uncaught script exception looks like to the host: the line number of
  \<^verbatim>\<open>Message::GetLineNumber\<close> and the UTF-8 text of the exception value. The line
  number is a C \<^verbatim>\<open>int\<close>, a 32-bit word read as a signed number by \<open>sint\<close>; the
  subtraction the host applies to it is the machine's, which wraps around.
\<close>

type_synonym js_exception = "32 word \<times> string"

text \<open>
  The collaborators whose answers the code depends on: \<open>script_compile\<close> is
  \<^verbatim>\<open>Script::Compile\<close> on the combined source (\<open>None\<close>: a non-empty handle;
  \<open>Some (line, text)\<close>: an empty handle, with the message line and the exception text of
  the \<^verbatim>\<open>TryCatch\<close>); \<open>gumscript_runtime_h\<close> is the string literal included from
  \<^verbatim>\<open>gumscript-runtime.h\<close>; \<open>g_strescape\<close> is GLib's function of that name with
  no exceptions. The compiler is a function of the text: compiling the same text again
  gives the same answer.
\<close>

record environment =
  script_compile :: "string \<Rightarrow> js_exception option"
  gumscript_runtime_h :: string
  g_strescape :: "string \<Rightarrow> string"

definition GUM_SCRIPT_RUNTIME_SOURCE_LINE_COUNT :: "32 word" where
  "GUM_SCRIPT_RUNTIME_SOURCE_LINE_COUNT = 1"

record GError =
  domain :: string
  code :: string
  message :: string

subsection \<open>Formatting\<close>

text \<open>The conversion \<^verbatim>\<open>%d\<close> of \<^verbatim>\<open>printf\<close>.\<close>

fun decimal :: "nat \<Rightarrow> string" where
  "decimal n =
     (if n < 10 then [''0123456789'' ! n]
      else decimal (n div 10) @ [''0123456789'' ! (n mod 10)])"

definition printf_d :: "int \<Rightarrow> string" where
  "printf_d i = (if i < 0 then CHR ''-'' # decimal (nat (- i)) else decimal (nat i))"

text \<open>\<^verbatim>\<open>"Script(line %d): %s"\<close>\<close>

definition script_error_message :: "int \<Rightarrow> string \<Rightarrow> string" where
  "script_error_message n text = ''Script(line '' @ printf_d n @ ''): '' @ text"

text \<open>\<^verbatim>\<open>"{\"type\":\"error\",\"lineNumber\":%d,\"description\":\"%s\"}"\<close>\<close>

definition error_json :: "int \<Rightarrow> string \<Rightarrow> string" where
  "error_json n text =
     [CHR ''{'', CHR 0x22] @ ''type'' @ [CHR 0x22, CHR '':'', CHR 0x22] @ ''error''
     @ [CHR 0x22, CHR '','', CHR 0x22] @ ''lineNumber'' @ [CHR 0x22, CHR '':'']
     @ printf_d n
     @ [CHR '','', CHR 0x22] @ ''description'' @ [CHR 0x22, CHR '':'', CHR 0x22]
     @ text @ [CHR 0x22, CHR ''}'']"

subsection \<open>Lines of a text and the reading of a printed number\<close>

text \<open>
  Two notions the properties need to say which line a reported number names: the number
  of lines of a text (one more than its newline characters) and the line, counted from 1,
  on which the character at a given offset stands.
\<close>

definition line_count :: "string \<Rightarrow> nat" where
  "line_count s = Suc (count_list s (CHR 0x0A))"

definition line_at :: "string \<Rightarrow> nat \<Rightarrow> nat" where
  "line_at s i = Suc (count_list (take i s) (CHR 0x0A))"

text \<open>
  The reading of a decimal number at the start of a text, as \<^verbatim>\<open>strtol\<close> in base 10
  does it: an optional minus sign, then digits up to the first character that is none.
  It recovers the number from what \<^verbatim>\<open>%d\<close> printed.
\<close>

definition digit_value :: "char \<Rightarrow> nat option" where
  "digit_value c =
     (if 48 \<le> (of_char c :: nat) \<and> (of_char c :: nat) \<le> 57 then Some (of_char c - 48)
      else None)"

fun read_digits :: "nat \<Rightarrow> string \<Rightarrow> nat" where
  "read_digits acc [] = acc"
| "read_digits acc (c # cs) =
     (case digit_value c of
        Some d \<Rightarrow> read_digits (10 * acc + d) cs
      | None \<Rightarrow> acc)"

definition read_d :: "string \<Rightarrow> int" where
  "read_d s =
     (case s of
        [] \<Rightarrow> 0
      | c # cs \<Rightarrow> if c = CHR ''-'' then - int (read_digits 0 cs) else int (read_digits 0 s))"

subsection \<open>Context creation and teardown\<close>

definition record_call :: "call \<Rightarrow> GumScriptPrivate \<Rightarrow> GumScriptPrivate" where
  "record_call c priv = priv\<lparr>calls := calls priv @ [c]\<rparr>"

text \<open>
  \<^verbatim>\<open>gum_script_destroy_context\<close>: the assertion, the context scope with the flush and
  the eleven dispose calls, the two deletes, the eleven finalize calls, and the reset of
  \<open>loaded\<close>, statement by statement.
\<close>

definition gum_script_destroy_context :: "GumScriptPrivate \<Rightarrow> abort + GumScriptPrivate" where
  "gum_script_destroy_context priv =
     (if context priv = None then Inl (AssertionFailed ''priv->context != NULL'')
      else
        let p1 = record_call ContextScopeEnter priv;
            p2 = record_call CoreFlush p1;
            p3 = record_call (Dispose Instruction) p2;
            p4 = record_call (Dispose Symbol) p3;
            p5 = record_call (Dispose Stalker) p4;
            p6 = record_call (Dispose Interceptor) p5;
            p7 = record_call (Dispose Socket) p6;
            p8 = record_call (Dispose File) p7;
            p9 = record_call (Dispose Module) p8;
            p10 = record_call (Dispose Thread) p9;
            p11 = record_call (Dispose Process) p10;
            p12 = record_call (Dispose Memory) p11;
            p13 = record_call (Dispose Core) p12;
            p14 = record_call ContextScopeLeave p13;
            p15 = (record_call DeleteRawScript p14)\<lparr>raw_script := None\<rparr>;
            p16 = (record_call DeleteContext p15)\<lparr>context := None\<rparr>;
            p17 = record_call (Finalize Instruction) p16;
            p18 = record_call (Finalize Symbol) p17;
            p19 = record_call (Finalize Stalker) p18;
            p20 = record_call (Finalize Interceptor) p19;
            p21 = record_call (Finalize Socket) p20;
            p22 = record_call (Finalize File) p21;
            p23 = record_call (Finalize Module) p22;
            p24 = record_call (Finalize Thread) p23;
            p25 = record_call (Finalize Process) p24;
            p26 = record_call (Finalize Memory) p25;
            p27 = record_call (Finalize Core) p26
        in Inr (p27\<lparr>loaded := False\<rparr>))"

text \<open>
  \<^verbatim>\<open>g_set_error (error, G_IO_ERROR, G_IO_ERROR_FAILED, ...)\<close>: \<open>error\<close> is the
  caller's \<^verbatim>\<open>GError **\<close>, \<open>True\<close> when it is a location to store into and \<open>False\<close>
  when the caller passed \<^verbatim>\<open>NULL\<close>, in which case nothing is stored. The result is
  what the location holds afterwards.
\<close>

definition g_set_error :: "bool \<Rightarrow> string \<Rightarrow> GError option" where
  "g_set_error error text =
     (if error then Some \<lparr>domain = ''G_IO_ERROR'', code = ''G_IO_ERROR_FAILED'', message = text\<rparr>
      else None)"

text \<open>
  \<^verbatim>\<open>g_strconcat\<close> of the included runtime literal, \<^verbatim>\<open>"\n"\<close> and
  \<^verbatim>\<open>priv->source\<close>.
\<close>

definition combined_source :: "environment \<Rightarrow> GumScriptPrivate \<Rightarrow> string" where
  "combined_source env priv = gumscript_runtime_h env @ [CHR 0x0A] @ source priv"

text \<open>
  \<^verbatim>\<open>gum_script_create_context\<close>. The result is the returned \<^verbatim>\<open>gboolean\<close>, the
  content of the caller's error location, and the instance.
\<close>

definition gum_script_create_context ::
  "environment \<Rightarrow> GumScriptPrivate \<Rightarrow> bool \<Rightarrow> abort + (bool \<times> GError option \<times> GumScriptPrivate)" where
  "gum_script_create_context env priv error =
     (if context priv \<noteq> None then Inl (AssertionFailed ''priv->context == NULL'')
      else
        let p1 = record_call (Init Core) priv;
            p2 = record_call (Init Memory) p1;
            p3 = record_call (Init Process) p2;
            p4 = record_call (Init Thread) p3;
            p5 = record_call (Init Module) p4;
            p6 = record_call (Init File) p5;
            p7 = record_call (Init Socket) p6;
            p8 = record_call (Init Interceptor) p7;
            p9 = record_call (Init Stalker) p8;
            p10 = record_call (Init Symbol) p9;
            p11 = record_call (Init Instruction) p10;
            p12 = (record_call ContextNew p11)\<lparr>context := Some PersistentContext\<rparr>;
            p13 = record_call ContextScopeEnter p12;
            p14 = record_call (Realize Core) p13;
            p15 = record_call (Realize Memory) p14;
            p16 = record_call (Realize Process) p15;
            p17 = record_call (Realize Thread) p16;
            p18 = record_call (Realize Module) p17;
            p19 = record_call (Realize File) p18;
            p20 = record_call (Realize Socket) p19;
            p21 = record_call (Realize Interceptor) p20;
            p22 = record_call (Realize Stalker) p21;
            p23 = record_call (Realize Symbol) p22;
            p24 = record_call (Realize Instruction) p23;
            p25 = record_call (ScriptCompile (combined_source env priv)) p24;
            (err, p26) =
              (case script_compile env (combined_source env priv) of
                 Some (line, exception_str) \<Rightarrow>
                   (g_set_error error
                      (script_error_message (sint (line - GUM_SCRIPT_RUNTIME_SOURCE_LINE_COUNT))
                         exception_str),
                    p25)
               | None \<Rightarrow>
                   (None, p25\<lparr>raw_script := Some (PersistentScript (combined_source env priv))\<rparr>));
            p27 = record_call ContextScopeLeave p26
        in if raw_script p27 = None then
             (case gum_script_destroy_context p27 of
                Inl a \<Rightarrow> Inl a
              | Inr p28 \<Rightarrow> Inr (False, err, p28))
           else Inr (True, err, p27))"

text \<open>The binding order of the init calls of the listing above.\<close>

fun inits :: "call list \<Rightarrow> binding list" where
  "inits [] = []"
| "inits (Init b # cs) = b # inits cs"
| "inits (c # cs) = inits cs"

subsection \<open>The execution scope\<close>

text \<open>
  The constructor of \<^verbatim>\<open>ScriptScopeImpl\<close> reads through \<^verbatim>\<open>parent->priv->context\<close>
  and enters the context; its \<^verbatim>\<open>TryCatch\<close> member starts empty.
\<close>

definition ScriptScope_ctor :: "GumScriptPrivate \<Rightarrow> abort + GumScriptPrivate" where
  "ScriptScope_ctor priv =
     (if context priv = None then Inl (NullDereference ''*parent->priv->context'')
      else Inr (record_call ContextScopeEnter priv))"

text \<open>
  The destructor of \<^verbatim>\<open>ScriptScopeImpl\<close>; \<open>trycatch\<close> is what the member
  \<^verbatim>\<open>TryCatch\<close> holds when the scope ends: \<open>None\<close> when \<^verbatim>\<open>HasCaught\<close> is false.
  After the body the members are destroyed, the context scope among them.
\<close>

definition ScriptScopeImpl_dtor ::
  "environment \<Rightarrow> js_exception option \<Rightarrow> GumScriptPrivate \<Rightarrow> GumScriptPrivate" where
  "ScriptScopeImpl_dtor env trycatch priv =
     (let p1 =
        (case trycatch of
           Some (line, exception_str) \<Rightarrow>
             record_call
               (CoreEmitMessage
                  (error_json (sint (line - GUM_SCRIPT_RUNTIME_SOURCE_LINE_COUNT))
                     (g_strescape env exception_str)))
               priv
         | None \<Rightarrow> priv)
      in record_call ContextScopeLeave p1)"

text \<open>\<^verbatim>\<open>ScriptScope::~ScriptScope\<close>: delete the implementation, then signal the tracer.\<close>

definition ScriptScope_dtor ::
  "environment \<Rightarrow> js_exception option \<Rightarrow> GumScriptPrivate \<Rightarrow> GumScriptPrivate" where
  "ScriptScope_dtor env trycatch priv =
     record_call StalkerProcessPending (ScriptScopeImpl_dtor env trycatch priv)"

subsection \<open>Load, unload, dispose, create\<close>

text \<open>
  What the compiled program does during one \<^verbatim>\<open>raw_script->Run ()\<close>, as far as the
  host can tell: the calls back into \<^verbatim>\<open>gum_script_load\<close> on the same instance that
  happen while it runs, in order, and the exception left uncaught when it ends, if any.
  Each re-entrant call carries the behaviour the program would show were that call to
  run it again, so a behaviour is a finite tree. Calls from the running program into
  other host functions are not part of a behaviour.
\<close>

datatype behaviour = Behaviour host_calls "js_exception option"
and host_calls = Return | CallLoad behaviour host_calls

text \<open>
  \<^verbatim>\<open>gum_script_load\<close>. The boolean and the error of the implicit
  \<^verbatim>\<open>gum_script_create_context (self, NULL)\<close> are dropped, as in the source.
\<close>

fun gum_script_load :: "environment \<Rightarrow> behaviour \<Rightarrow> GumScriptPrivate \<Rightarrow> abort + GumScriptPrivate"
and Run :: "environment \<Rightarrow> host_calls \<Rightarrow> GumScriptPrivate \<Rightarrow> abort + GumScriptPrivate" where
  "gum_script_load env (Behaviour cs exn) priv =
     (case (if raw_script priv = None then
              (case gum_script_create_context env priv False of
                 Inl a \<Rightarrow> Inl a
               | Inr (ok, err, p) \<Rightarrow> Inr p)
            else Inr priv) of
        Inl a \<Rightarrow> Inl a
      | Inr p1 \<Rightarrow>
          if raw_script p1 \<noteq> None \<and> \<not> loaded p1 then
            (case ScriptScope_ctor (p1\<lparr>loaded := True\<rparr>) of
               Inl a \<Rightarrow> Inl a
             | Inr p2 \<Rightarrow>
                 (case Run env cs (record_call ScriptRun p2) of
                    Inl a \<Rightarrow> Inl a
                  | Inr p3 \<Rightarrow> Inr (ScriptScope_dtor env exn p3)))
          else Inr p1)"
| "Run env Return priv = Inr priv"
| "Run env (CallLoad b cs) priv =
     (case gum_script_load env b priv of
        Inl a \<Rightarrow> Inl a
      | Inr p \<Rightarrow> Run env cs p)"

definition gum_script_unload :: "GumScriptPrivate \<Rightarrow> abort + GumScriptPrivate" where
  "gum_script_unload priv =
     (if loaded priv then gum_script_destroy_context (priv\<lparr>loaded := False\<rparr>)
      else Inr priv)"

definition gum_script_dispose :: "GumScriptPrivate \<Rightarrow> abort + GumScriptPrivate" where
  "gum_script_dispose priv =
     (case gum_script_unload priv of
        Inl a \<Rightarrow> Inl a
      | Inr p \<Rightarrow> Inr (p\<lparr>isolate := False\<rparr>))"

text \<open>
  \<^verbatim>\<open>g_object_new (GUM_TYPE_SCRIPT, "source", source, NULL)\<close>: zeroed private data,
  \<^verbatim>\<open>gum_script_init\<close>, and the construct-only property.
\<close>

definition gum_script_init :: "string \<Rightarrow> GumScriptPrivate" where
  "gum_script_init src =
     \<lparr>source = src, isolate = True, context = None, raw_script = None,
      loaded = False, calls = []\<rparr>"

text \<open>
  \<^verbatim>\<open>gum_script_from_string\<close>. The result is the returned handle, the content of the
  caller's error location, and, when the last reference was dropped, the instance as
  \<^verbatim>\<open>gum_script_dispose\<close> left it before its memory was freed.
\<close>

definition gum_script_from_string ::
  "environment \<Rightarrow> string \<Rightarrow> bool \<Rightarrow>
   abort + (GumScriptPrivate option \<times> GError option \<times> GumScriptPrivate option)" where
  "gum_script_from_string env src error =
     (case gum_script_create_context env (gum_script_init src) error of
        Inl a \<Rightarrow> Inl a
      | Inr (ok, err, script) \<Rightarrow>
          if \<not> ok then
            (case gum_script_dispose script of
               Inl a \<Rightarrow> Inl a
             | Inr unreffed \<Rightarrow> Inr (None, err, Some unreffed))
          else Inr (Some script, err, None))"

subsection \<open>The debug bridge\<close>

text \<open>
  The four file-level variables, the engine's debug message hook (\<open>True\<close> while
  \<^verbatim>\<open>gum_script_on_debug_message\<close> is installed), and the calls made. Function and
  data pointers are numbers; \<open>None\<close> is the null pointer.
\<close>

datatype debug_call =
  DeleteDebugContext
  | SetMessageHandler bool
  | Notify nat "nat option"
  | GetDebugContext

record debug_globals =
  gum_debug_handler :: "nat option"
  gum_debug_data :: "nat option"
  gum_debug_notify :: "nat option"
  gum_debug_context :: "persistent_context option"
  message_handler :: bool
  debug_calls :: "debug_call list"

definition record_debug_call :: "debug_call \<Rightarrow> debug_globals \<Rightarrow> debug_globals" where
  "record_debug_call c g = g\<lparr>debug_calls := debug_calls g @ [c]\<rparr>"

definition gum_script_set_debug_message_handler ::
  "nat option \<Rightarrow> nat option \<Rightarrow> nat option \<Rightarrow> debug_globals \<Rightarrow> debug_globals" where
  "gum_script_set_debug_message_handler func data notify g =
     (let g1 =
        (if gum_debug_handler g \<noteq> None then
           let a = (record_debug_call DeleteDebugContext g)\<lparr>gum_debug_context := None\<rparr>;
               b = (record_debug_call (SetMessageHandler False) a)\<lparr>message_handler := False\<rparr>;
               c = (case gum_debug_notify b of
                      Some n \<Rightarrow> record_debug_call (Notify n (gum_debug_data b)) b
                    | None \<Rightarrow> b)
           in c\<lparr>gum_debug_handler := None, gum_debug_data := None, gum_debug_notify := None\<rparr>
         else g)
      in if func \<noteq> None then
           let d = g1\<lparr>gum_debug_handler := func, gum_debug_data := data,
                      gum_debug_notify := notify\<rparr>;
               e = (record_debug_call (SetMessageHandler True) d)\<lparr>message_handler := True\<rparr>
           in (record_debug_call GetDebugContext e)\<lparr>gum_debug_context := Some PersistentContext\<rparr>
         else g1)"

subsection \<open>Call sequences and sample data\<close>

text \<open>
  The calls one pass through each of the two functions above makes, written out for the
  lemmas that follow, and the messages handed to the core binding among a list of calls.
\<close>

definition create_context_calls :: "string \<Rightarrow> call list" where
  "create_context_calls combined =
     [Init Core, Init Memory, Init Process, Init Thread, Init Module,
      Init File, Init Socket, Init Interceptor, Init Stalker, Init Symbol,
      Init Instruction, ContextNew, ContextScopeEnter,
      Realize Core, Realize Memory, Realize Process, Realize Thread, Realize Module,
      Realize File, Realize Socket, Realize Interceptor, Realize Stalker,
      Realize Symbol, Realize Instruction, ScriptCompile combined,
      ContextScopeLeave]"

definition destroy_context_calls :: "call list" where
  "destroy_context_calls =
     [ContextScopeEnter, CoreFlush,
      Dispose Instruction, Dispose Symbol, Dispose Stalker, Dispose Interceptor,
      Dispose Socket, Dispose File, Dispose Module, Dispose Thread, Dispose Process,
      Dispose Memory, Dispose Core, ContextScopeLeave, DeleteRawScript, DeleteContext,
      Finalize Instruction, Finalize Symbol, Finalize Stalker, Finalize Interceptor,
      Finalize Socket, Finalize File, Finalize Module, Finalize Thread, Finalize Process,
      Finalize Memory, Finalize Core]"

text \<open>
  The instance after a successful pass through \<^verbatim>\<open>gum_script_create_context\<close>,
  after a pass that failed to compile, and at the moment \<^verbatim>\<open>gum_script_load\<close>
  calls \<^verbatim>\<open>raw_script->Run ()\<close>.
\<close>

definition rebuilt :: "environment \<Rightarrow> GumScriptPrivate \<Rightarrow> GumScriptPrivate" where
  "rebuilt env priv =
     priv\<lparr>context := Some PersistentContext,
          raw_script := Some (PersistentScript (combined_source env priv)),
          calls := calls priv @ create_context_calls (combined_source env priv)\<rparr>"

definition torn_down :: "environment \<Rightarrow> GumScriptPrivate \<Rightarrow> GumScriptPrivate" where
  "torn_down env priv =
     priv\<lparr>context := None, raw_script := None, loaded := False,
          calls := calls priv @ create_context_calls (combined_source env priv)
                   @ destroy_context_calls\<rparr>"

definition at_run :: "GumScriptPrivate \<Rightarrow> GumScriptPrivate" where
  "at_run priv =
     record_call ScriptRun (record_call ContextScopeEnter (priv\<lparr>loaded := True\<rparr>))"

fun emitted :: "call list \<Rightarrow> string list" where
  "emitted [] = []"
| "emitted (CoreEmitMessage m # cs) = m # emitted cs"
| "emitted (c # cs) = emitted cs"

text \<open>
  A sample engine for concrete evaluations: a one-line runtime, a compiler that rejects
  the source \<^verbatim>\<open>send(1\<close> at its first line (line 2 of the combined text) and the
  two-line source \<^verbatim>\<open>var x;\<close>, \<^verbatim>\<open>send(1\<close> at its second line (line 3 of the combined
  text) and accepts everything else, and an escape function that leaves plain text as it
  is.
\<close>

definition sample_environment :: environment where
  "sample_environment =
     \<lparr>script_compile =
        (\<lambda>s. if s = ''Gum.init();'' @ [CHR 0x0A] @ ''send(1''
             then Some (2, ''SyntaxError: Unexpected end of input'')
             else if s = ''Gum.init();'' @ [CHR 0x0A] @ ''var x;'' @ [CHR 0x0A] @ ''send(1''
             then Some (3, ''SyntaxError: Unexpected end of input'')
             else None),
      gumscript_runtime_h = ''Gum.init();'',
      g_strescape = (\<lambda>s. s)\<rparr>"

definition sample_source :: string where
  "sample_source = ''throw new Error('boom')''"

definition sample_script :: GumScriptPrivate where
  "sample_script =
     \<lparr>source = sample_source, isolate = True, context = Some PersistentContext,
      raw_script = Some (PersistentScript (''Gum.init();'' @ [CHR 0x0A] @ sample_source)),
      loaded = False,
      calls = create_context_calls (''Gum.init();'' @ [CHR 0x0A] @ sample_source)\<rparr>"

text \<open>
  More sample data: the two sources the sample compiler rejects, a program run that calls back
  into load once and ends with an uncaught exception on line 2 of the combined text, and
  the debug variables as they are when the process starts.
\<close>

definition sample_bad_source :: string where
  "sample_bad_source = ''send(1''"

definition sample_bad_source_2 :: string where
  "sample_bad_source_2 = ''var x;'' @ [CHR 0x0A] @ ''send(1''"

definition sample_behaviour :: behaviour where
  "sample_behaviour =
     Behaviour (CallLoad (Behaviour Return None) Return) (Some (2, ''Error: boom''))"

definition debug_globals_init :: debug_globals where
  "debug_globals_init =
     \<lparr>gum_debug_handler = None, gum_debug_data = None, gum_debug_notify = None,
      gum_debug_context = None, message_handler = False, debug_calls = []\<rparr>"

section \<open>Properties\<close>

subsection \<open>Closed forms of context creation and teardown\<close>

lemma destroy_context_result:
  assumes "context priv \<noteq> None"
  shows "gum_script_destroy_context priv =
     Inr (priv\<lparr>context := None, raw_script := None, loaded := False,
        calls := calls priv @ destroy_context_calls\<rparr>)"
  using assms
  by (simp add: gum_script_destroy_context_def record_call_def destroy_context_calls_def)

lemma create_context_ok:
  assumes "context priv = None"
    and "script_compile env (combined_source env priv) = None"
  shows "gum_script_create_context env priv error = Inr (True, None, rebuilt env priv)"
  using assms
  by (simp add: gum_script_create_context_def record_call_def create_context_calls_def
      rebuilt_def)

lemma create_context_failed_step:
  assumes "context priv = None" and "raw_script priv = None"
    and "script_compile env (combined_source env priv) = Some (line, text)"
  shows "gum_script_create_context env priv error =
    (case gum_script_destroy_context
            (priv\<lparr>context := Some PersistentContext,
                 calls := calls priv @ create_context_calls (combined_source env priv)\<rparr>) of
       Inl a \<Rightarrow> Inl a
     | Inr p \<Rightarrow> Inr (False,
         g_set_error error (script_error_message
            (sint (line - GUM_SCRIPT_RUNTIME_SOURCE_LINE_COUNT)) text), p))"
  using assms
  by (simp add: gum_script_create_context_def record_call_def create_context_calls_def)

lemma create_context_failed:
  assumes "context priv = None" and "raw_script priv = None"
    and "script_compile env (combined_source env priv) = Some (line, exception_str)"
  shows "gum_script_create_context env priv error =
    Inr (False,
         g_set_error error
           (script_error_message (sint (line - GUM_SCRIPT_RUNTIME_SOURCE_LINE_COUNT)) exception_str),
         torn_down env priv)"
  by (simp add: create_context_failed_step [OF assms] destroy_context_result torn_down_def)

lemma inits_append: "inits (xs @ ys) = inits xs @ inits ys"
  by (induction xs rule: inits.induct) simp_all

lemma inits_create_context_calls:
  "inits (create_context_calls s) =
     [Core, Memory, Process, Thread, Module, File, Socket, Interceptor, Stalker, Symbol,
      Instruction]"
  by (simp add: create_context_calls_def)

lemma inits_destroy_context_calls: "inits destroy_context_calls = []"
  by (simp add: destroy_context_calls_def)

lemma combined_source_init:
  "combined_source env (gum_script_init src) = gumscript_runtime_h env @ [CHR 0x0A] @ src"
  by (simp add: combined_source_def gum_script_init_def)

lemma inits_created:
  assumes "gum_script_create_context env (gum_script_init src) error = Inr (ok, err, created)"
  shows "inits (calls created) =
     [Core, Memory, Process, Thread, Module, File, Socket, Interceptor, Stalker, Symbol,
      Instruction]"
proof (cases "script_compile env (combined_source env (gum_script_init src))")
  case None
  have "context (gum_script_init src) = None"
    by (simp add: gum_script_init_def)
  from create_context_ok [OF this None, of error] assms
  have "created = rebuilt env (gum_script_init src)"
    by simp
  then show ?thesis
    by (simp add: rebuilt_def inits_append inits_create_context_calls gum_script_init_def)
next
  case (Some e)
  obtain l m where e: "e = (l, m)"
    by (cases e)
  have c: "context (gum_script_init src) = None"
    and r: "raw_script (gum_script_init src) = None"
    by (simp_all add: gum_script_init_def)
  from create_context_failed [OF c r Some [unfolded e], of error] assms
  have "created = torn_down env (gum_script_init src)"
    by simp
  then show ?thesis
    by (simp add: torn_down_def inits_append inits_create_context_calls
        inits_destroy_context_calls gum_script_init_def)
qed

lemma emitted_append: "emitted (xs @ ys) = emitted xs @ emitted ys"
  by (induction xs rule: emitted.induct) simp_all

subsection \<open>Closed forms of load, unload and create\<close>

lemma load_loaded:
  "raw_script priv \<noteq> None \<Longrightarrow> loaded priv \<Longrightarrow> gum_script_load env b priv = Inr priv"
  by (cases b) auto

lemma Run_loaded:
  "raw_script priv \<noteq> None \<Longrightarrow> loaded priv \<Longrightarrow> Run env cs priv = Inr priv"
  by (induction cs) (simp_all add: load_loaded)

lemma at_run_fields:
  "source (at_run priv) = source priv" "isolate (at_run priv) = isolate priv"
  "context (at_run priv) = context priv" "raw_script (at_run priv) = raw_script priv"
  "loaded (at_run priv)" "calls (at_run priv) = calls priv @ [ContextScopeEnter, ScriptRun]"
  by (simp_all add: at_run_def record_call_def)

lemma load_fresh:
  assumes "raw_script priv \<noteq> None" "context priv \<noteq> None" "\<not> loaded priv"
  shows "gum_script_load env (Behaviour cs exn) priv =
     Inr (ScriptScope_dtor env exn (at_run priv))"
proof -
  have "Run env cs (at_run priv) = Inr (at_run priv)"
    using assms by (simp add: Run_loaded at_run_fields)
  then show ?thesis
    using assms by (auto simp add: ScriptScope_ctor_def at_run_def)
qed

lemma ScriptScope_dtor_fields:
  "source (ScriptScope_dtor env t priv) = source priv"
  "isolate (ScriptScope_dtor env t priv) = isolate priv"
  "context (ScriptScope_dtor env t priv) = context priv"
  "raw_script (ScriptScope_dtor env t priv) = raw_script priv"
  "loaded (ScriptScope_dtor env t priv) = loaded priv"
  by (simp_all add: ScriptScope_dtor_def ScriptScopeImpl_dtor_def record_call_def Let_def
      split: option.splits)

lemma ScriptScope_dtor_calls:
  "calls (ScriptScope_dtor env t priv) =
     calls priv
     @ (case t of
          Some (line, exception_str) \<Rightarrow>
            [CoreEmitMessage (error_json (sint (line - GUM_SCRIPT_RUNTIME_SOURCE_LINE_COUNT))
               (g_strescape env exception_str))]
        | None \<Rightarrow> [])
     @ [ContextScopeLeave, StalkerProcessPending]"
  by (simp add: ScriptScope_dtor_def ScriptScopeImpl_dtor_def record_call_def Let_def
      split: option.splits)

lemma rebuilt_fields:
  "source (rebuilt env priv) = source priv" "isolate (rebuilt env priv) = isolate priv"
  "context (rebuilt env priv) = Some PersistentContext"
  "raw_script (rebuilt env priv) = Some (PersistentScript (combined_source env priv))"
  "loaded (rebuilt env priv) = loaded priv"
  "calls (rebuilt env priv) = calls priv @ create_context_calls (combined_source env priv)"
  by (simp_all add: rebuilt_def)

lemma torn_down_fields:
  "source (torn_down env priv) = source priv" "isolate (torn_down env priv) = isolate priv"
  "context (torn_down env priv) = None" "raw_script (torn_down env priv) = None"
  "\<not> loaded (torn_down env priv)"
  "calls (torn_down env priv) =
     calls priv @ create_context_calls (combined_source env priv) @ destroy_context_calls"
  by (simp_all add: torn_down_def)

lemma load_rebuild_ok:
  assumes "context priv = None" "raw_script priv = None" "\<not> loaded priv"
    and "script_compile env (combined_source env priv) = None"
  shows "gum_script_load env (Behaviour cs exn) priv =
     Inr (ScriptScope_dtor env exn (at_run (rebuilt env priv)))"
proof -
  have f: "raw_script (rebuilt env priv) \<noteq> None" "context (rebuilt env priv) \<noteq> None"
    "\<not> loaded (rebuilt env priv)"
    using assms(3) by (simp_all add: rebuilt_fields)
  have "gum_script_load env (Behaviour cs exn) priv
      = gum_script_load env (Behaviour cs exn) (rebuilt env priv)"
    using assms(2) f by (auto simp add: create_context_ok [OF assms(1) assms(4)])
  then show ?thesis
    by (simp only: load_fresh [OF f])
qed

lemma load_rebuild_failed:
  assumes "context priv = None" "raw_script priv = None"
    and "script_compile env (combined_source env priv) = Some (line, exception_str)"
  shows "gum_script_load env b priv = Inr (torn_down env priv)"
  using assms(2)
  by (cases b) (simp add: create_context_failed [OF assms] torn_down_fields)

declare gum_script_load.simps(1) [simp del]

lemma unload_loaded:
  assumes "loaded priv" "context priv \<noteq> None"
  shows "gum_script_unload priv =
     Inr (priv\<lparr>context := None, raw_script := None, loaded := False,
               calls := calls priv @ destroy_context_calls\<rparr>)"
proof -
  have "context (priv\<lparr>loaded := False\<rparr>) \<noteq> None"
    using assms(2) by simp
  from destroy_context_result [OF this] assms(1) show ?thesis
    by (simp add: gum_script_unload_def)
qed

lemma unload_not_loaded: "\<not> loaded priv \<Longrightarrow> gum_script_unload priv = Inr priv"
  by (simp add: gum_script_unload_def)

lemma from_string_ok:
  assumes "script_compile env (gumscript_runtime_h env @ [CHR 0x0A] @ src) = None"
  shows "gum_script_from_string env src error =
     Inr (Some (rebuilt env (gum_script_init src)), None, None)"
proof -
  have c: "context (gum_script_init src) = None"
    by (simp add: gum_script_init_def)
  have k: "script_compile env (combined_source env (gum_script_init src)) = None"
    using assms by (simp add: combined_source_init)
  show ?thesis
    by (simp add: gum_script_from_string_def create_context_ok [OF c k])
qed

lemma from_string_failed:
  assumes "script_compile env (gumscript_runtime_h env @ [CHR 0x0A] @ src)
             = Some (line, exception_str)"
  shows "gum_script_from_string env src error =
     Inr (None,
          g_set_error error
            (script_error_message (sint (line - GUM_SCRIPT_RUNTIME_SOURCE_LINE_COUNT)) exception_str),
          Some ((torn_down env (gum_script_init src))\<lparr>isolate := False\<rparr>))"
proof -
  have c: "context (gum_script_init src) = None"
    and r: "raw_script (gum_script_init src) = None"
    by (simp_all add: gum_script_init_def)
  have k: "script_compile env (combined_source env (gum_script_init src))
             = Some (line, exception_str)"
    using assms by (simp add: combined_source_init)
  have d: "gum_script_dispose (torn_down env (gum_script_init src)) =
      Inr ((torn_down env (gum_script_init src))\<lparr>isolate := False\<rparr>)"
    by (simp add: gum_script_dispose_def unload_not_loaded torn_down_fields)
  show ?thesis
    by (simp add: gum_script_from_string_def create_context_failed [OF c r k] d)
qed

subsection \<open>Counting calls\<close>

lemma count_ScriptRun_dtor:
  "count_list (calls (ScriptScope_dtor env t priv)) ScriptRun = count_list (calls priv) ScriptRun"
  by (simp add: ScriptScope_dtor_calls split: option.splits)

lemma count_ScriptRun_at_run:
  "count_list (calls (at_run priv)) ScriptRun = count_list (calls priv) ScriptRun + 1"
  by (simp add: at_run_fields)

lemma count_ScriptRun_rebuilt:
  "count_list (calls (rebuilt env priv)) ScriptRun = count_list (calls priv) ScriptRun"
  by (simp add: rebuilt_def create_context_calls_def)

lemma count_ScriptRun_torn_down:
  "count_list (calls (torn_down env priv)) ScriptRun = count_list (calls priv) ScriptRun"
  by (simp add: torn_down_def create_context_calls_def destroy_context_calls_def)

lemma count_pending_dtor:
  "count_list (calls (ScriptScope_dtor env t priv)) StalkerProcessPending
     = count_list (calls priv) StalkerProcessPending + 1"
  by (simp add: ScriptScope_dtor_calls split: option.splits)

lemma emitted_dtor:
  "emitted (calls (ScriptScope_dtor env t priv)) =
     emitted (calls priv)
     @ (case t of
          Some (line, exception_str) \<Rightarrow>
            [error_json (sint (line - GUM_SCRIPT_RUNTIME_SOURCE_LINE_COUNT))
               (g_strescape env exception_str)]
        | None \<Rightarrow> [])"
  by (simp add: ScriptScope_dtor_calls emitted_append split: option.splits)

lemma emitted_at_run: "emitted (calls (at_run priv)) = emitted (calls priv)"
  by (simp add: at_run_fields(6) emitted_append)

lemma load_once:
  assumes "(context priv = None) = (raw_script priv = None)"
    and "\<not> loaded priv"
    and "raw_script priv = None \<Longrightarrow> script_compile env (combined_source env priv) = None"
  shows "\<exists>p. gum_script_load env b priv = Inr p \<and> loaded p \<and> raw_script p \<noteq> None
            \<and> count_list (calls p) ScriptRun = count_list (calls priv) ScriptRun + 1"
proof -
  obtain cs exn where b: "b = Behaviour cs exn"
    by (cases b)
  show ?thesis
  proof (cases "raw_script priv = None")
    case True
    with assms(1) have c: "context priv = None"
      by simp
    have "gum_script_load env b priv = Inr (ScriptScope_dtor env exn (at_run (rebuilt env priv)))"
      unfolding b by (rule load_rebuild_ok [OF c True assms(2) assms(3) [OF True]])
    then show ?thesis
      by (simp add: ScriptScope_dtor_fields at_run_fields rebuilt_fields(1-5)
          count_ScriptRun_dtor count_ScriptRun_at_run count_ScriptRun_rebuilt)
  next
    case False
    with assms(1) have c: "context priv \<noteq> None"
      by simp
    have "gum_script_load env b priv = Inr (ScriptScope_dtor env exn (at_run priv))"
      unfolding b by (rule load_fresh [OF False c assms(2)])
    then show ?thesis
      using False
      by (simp add: ScriptScope_dtor_fields at_run_fields(1-5)
          count_ScriptRun_dtor count_ScriptRun_at_run)
  qed
qed

subsection \<open>The invariant, operation by operation\<close>

lemma load_keeps_invariant:
  assumes "(context priv = None) = (raw_script priv = None)"
    and "loaded priv \<longrightarrow> raw_script priv \<noteq> None"
  shows "\<exists>p. gum_script_load env b priv = Inr p
     \<and> (context p = None) = (raw_script p = None) \<and> (loaded p \<longrightarrow> raw_script p \<noteq> None)"
proof -
  obtain cs exn where b: "b = Behaviour cs exn"
    by (cases b)
  consider (noop) "raw_script priv \<noteq> None" "loaded priv"
    | (fresh) "raw_script priv \<noteq> None" "context priv \<noteq> None" "\<not> loaded priv"
    | (rebuild) "raw_script priv = None" "context priv = None" "\<not> loaded priv"
    using assms by (cases "raw_script priv = None"; cases "loaded priv") simp_all
  then show ?thesis
  proof cases
    case noop
    then have "gum_script_load env b priv = Inr priv"
      by (rule load_loaded)
    with assms show ?thesis
      by simp
  next
    case fresh
    have "gum_script_load env b priv = Inr (ScriptScope_dtor env exn (at_run priv))"
      unfolding b by (rule load_fresh [OF fresh])
    with fresh show ?thesis
      by (auto simp add: ScriptScope_dtor_fields at_run_fields(1-5))
  next
    case rebuild
    show ?thesis
    proof (cases "script_compile env (combined_source env priv)")
      case None
      have "gum_script_load env b priv =
          Inr (ScriptScope_dtor env exn (at_run (rebuilt env priv)))"
        unfolding b by (rule load_rebuild_ok [OF rebuild(2) rebuild(1) rebuild(3) None])
      then show ?thesis
        by (simp add: ScriptScope_dtor_fields at_run_fields(1-5) rebuilt_fields(1-5))
    next
      case (Some e)
      obtain l m where "e = (l, m)"
        by (cases e)
      with Some have "script_compile env (combined_source env priv) = Some (l, m)"
        by simp
      from load_rebuild_failed [OF rebuild(2) rebuild(1) this, of b] show ?thesis
        by (simp add: torn_down_fields(1-5))
    qed
  qed
qed

lemma unload_keeps_invariant:
  assumes "(context priv = None) = (raw_script priv = None)"
    and "loaded priv \<longrightarrow> raw_script priv \<noteq> None"
  shows "\<exists>p. gum_script_unload priv = Inr p
     \<and> (context p = None) = (raw_script p = None) \<and> (loaded p \<longrightarrow> raw_script p \<noteq> None)"
proof (cases "loaded priv")
  case True
  with assms have "context priv \<noteq> None"
    by simp
  from unload_loaded [OF True this] show ?thesis
    by simp
next
  case False
  with assms show ?thesis
    by (simp add: unload_not_loaded)
qed

lemma dispose_keeps_invariant:
  assumes "(context priv = None) = (raw_script priv = None)"
    and "loaded priv \<longrightarrow> raw_script priv \<noteq> None"
  shows "\<exists>p. gum_script_dispose priv = Inr p
     \<and> (context p = None) = (raw_script p = None) \<and> (loaded p \<longrightarrow> raw_script p \<noteq> None)"
proof (cases "loaded priv")
  case True
  with assms have "context priv \<noteq> None"
    by simp
  from unload_loaded [OF True this] show ?thesis
    by (simp add: gum_script_dispose_def)
next
  case False
  with assms show ?thesis
    by (simp add: gum_script_dispose_def unload_not_loaded)
qed

lemma from_string_establishes_invariant:
  "\<exists>script err unreffed. gum_script_from_string env src error = Inr (script, err, unreffed)
     \<and> (\<forall>p. script = Some p \<or> unreffed = Some p \<longrightarrow>
           (context p = None) = (raw_script p = None) \<and> (loaded p \<longrightarrow> raw_script p \<noteq> None))"
proof (cases "script_compile env (gumscript_runtime_h env @ [CHR 0x0A] @ src)")
  case None
  show ?thesis
    by (simp add: from_string_ok [OF None] rebuilt_fields(1-5))
next
  case (Some e)
  obtain l m where "e = (l, m)"
    by (cases e)
  with Some have "script_compile env (gumscript_runtime_h env @ [CHR 0x0A] @ src) = Some (l, m)"
    by simp
  from from_string_failed [OF this] show ?thesis
    by (simp add: torn_down_fields(1-5))
qed

subsection \<open>The debug bridge, call by call\<close>

lemma set_handler_calls:
  "debug_calls (gum_script_set_debug_message_handler func data notify g) =
     debug_calls g
     @ (if gum_debug_handler g \<noteq> None then
          [DeleteDebugContext, SetMessageHandler False]
          @ (case gum_debug_notify g of Some n \<Rightarrow> [Notify n (gum_debug_data g)] | None \<Rightarrow> [])
        else [])
     @ (if func \<noteq> None then [SetMessageHandler True, GetDebugContext] else [])"
  by (simp add: gum_script_set_debug_message_handler_def record_debug_call_def Let_def
      split: option.splits)

lemma set_handler_some:
  "gum_debug_handler (gum_script_set_debug_message_handler (Some h) data notify g) = Some h"
  "gum_debug_data (gum_script_set_debug_message_handler (Some h) data notify g) = data"
  "gum_debug_notify (gum_script_set_debug_message_handler (Some h) data notify g) = notify"
  "gum_debug_context (gum_script_set_debug_message_handler (Some h) data notify g)
     = Some PersistentContext"
  "message_handler (gum_script_set_debug_message_handler (Some h) data notify g)"
  by (simp_all add: gum_script_set_debug_message_handler_def record_debug_call_def Let_def
      split: option.splits)

lemma set_handler_none:
  assumes "gum_debug_handler g \<noteq> None"
  shows "gum_debug_handler (gum_script_set_debug_message_handler None data notify g) = None"
    "gum_debug_data (gum_script_set_debug_message_handler None data notify g) = None"
    "gum_debug_notify (gum_script_set_debug_message_handler None data notify g) = None"
    "gum_debug_context (gum_script_set_debug_message_handler None data notify g) = None"
    "\<not> message_handler (gum_script_set_debug_message_handler None data notify g)"
  using assms
  by (simp_all add: gum_script_set_debug_message_handler_def record_debug_call_def Let_def
      split: option.splits)

subsection \<open>Printing and reading back, lines of the combined text\<close>

declare decimal.simps [simp del]

lemma digit_value_nth:
  assumes "d < 10"
  shows "digit_value (''0123456789'' ! d) = Some d"
proof -
  from assms have "d = 0 \<or> d = 1 \<or> d = 2 \<or> d = 3 \<or> d = 4 \<or> d = 5 \<or> d = 6
      \<or> d = 7 \<or> d = 8 \<or> d = 9"
    by presburger
  then show ?thesis
    by (elim disjE) (simp_all add: digit_value_def)
qed

lemma nth_digit_not_minus:
  assumes "d < 10"
  shows "''0123456789'' ! d \<noteq> CHR ''-''"
proof -
  from assms have "d = 0 \<or> d = 1 \<or> d = 2 \<or> d = 3 \<or> d = 4 \<or> d = 5 \<or> d = 6
      \<or> d = 7 \<or> d = 8 \<or> d = 9"
    by presburger
  then show ?thesis
    by (elim disjE) simp_all
qed

lemma read_digits_decimal:
  "read_digits acc (decimal n @ s) = read_digits (acc * 10 ^ length (decimal n) + n) s"
proof (induction n arbitrary: acc s rule: decimal.induct)
  case (1 n)
  show ?case
  proof (cases "n < 10")
    case True
    then show ?thesis
      by (subst decimal.simps, subst (2) decimal.simps) (simp add: digit_value_nth mult.commute)
  next
    case False
    have m: "n mod 10 < 10"
      by simp
    have d: "decimal n = decimal (n div 10) @ [''0123456789'' ! (n mod 10)]"
      using False by (subst decimal.simps) simp
    have "read_digits acc (decimal n @ s)
        = read_digits acc (decimal (n div 10) @ ((''0123456789'' ! (n mod 10)) # s))"
      by (simp add: d)
    also have "\<dots> = read_digits (acc * 10 ^ length (decimal (n div 10)) + n div 10)
        ((''0123456789'' ! (n mod 10)) # s)"
      by (rule "1.IH" [OF False])
    also have "\<dots> = read_digits
        (10 * (acc * 10 ^ length (decimal (n div 10)) + n div 10) + n mod 10) s"
      by (simp add: digit_value_nth [OF m])
    also have "10 * (acc * 10 ^ length (decimal (n div 10)) + n div 10) + n mod 10
        = acc * 10 ^ length (decimal n) + n"
      by (simp add: d algebra_simps)
    finally show ?thesis .
  qed
qed

lemma decimal_hd:
  "\<exists>d cs. d < 10 \<and> decimal n = (''0123456789'' ! d) # cs"
proof (induction n rule: decimal.induct)
  case (1 n)
  show ?case
  proof (cases "n < 10")
    case True
    then show ?thesis
      by (subst decimal.simps) auto
  next
    case False
    with "1.IH" obtain d cs where "d < 10" "decimal (n div 10) = (''0123456789'' ! d) # cs"
      by blast
    then have "decimal n = (''0123456789'' ! d) # (cs @ [''0123456789'' ! (n mod 10)])"
      using False by (subst decimal.simps) simp
    with \<open>d < 10\<close> show ?thesis
      by blast
  qed
qed

lemma read_digits_stop:
  assumes "s = [] \<or> digit_value (hd s) = None"
  shows "read_digits acc s = acc"
  using assms by (cases s) simp_all

lemma read_d_printf_d:
  assumes "s = [] \<or> digit_value (hd s) = None"
  shows "read_d (printf_d i @ s) = i"
proof (cases "i < 0")
  case True
  then show ?thesis
    by (simp add: read_d_def printf_d_def read_digits_decimal read_digits_stop [OF assms]
       )
next
  case False
  obtain d cs where d: "d < 10" "decimal (nat i) = (''0123456789'' ! d) # cs"
    using decimal_hd by blast
  have "read_d (decimal (nat i) @ s) = int (read_digits 0 (decimal (nat i) @ s))"
    by (simp add: read_d_def d nth_digit_not_minus [OF d(1)])
  then show ?thesis
    using False
    by (simp add: printf_d_def read_digits_decimal read_digits_stop [OF assms]
       )
qed

lemma read_d_script_rest:
  "read_d (printf_d n @ ''): '' @ s) = n"
  by (rule read_d_printf_d) (simp add: digit_value_def)

lemma read_d_json_rest:
  "read_d (printf_d n @ [CHR '','', CHR 0x22] @ s) = n"
  by (rule read_d_printf_d) (simp add: digit_value_def)

lemma line_at_combined:
  "line_at (r @ [CHR 0x0A] @ s) (length r + 1 + i) = line_count r + line_at s i"
  by (simp add: line_at_def line_count_def)


lemma sint_count: "sint GUM_SCRIPT_RUNTIME_SOURCE_LINE_COUNT = 1"
  by (simp add: GUM_SCRIPT_RUNTIME_SOURCE_LINE_COUNT_def)

lemma sint_discount:
  assumes "- (2 ^ 31) < sint line"
  shows "sint (line - GUM_SCRIPT_RUNTIME_SOURCE_LINE_COUNT)
     = sint line - sint GUM_SCRIPT_RUNTIME_SOURCE_LINE_COUNT"
proof -
  have u: "sint line < 2 ^ 31"
    using sint_lt [of line] by simp
  have "sint (line - 1) = signed_take_bit 31 (sint line - 1)"
    by (simp add: sint_word_ariths)
  also have "\<dots> = sint line - 1"
    using assms u by (simp add: signed_take_bit_int_eq_self)
  finally show ?thesis
    by (simp add: GUM_SCRIPT_RUNTIME_SOURCE_LINE_COUNT_def)
qed

lemma user_line:
  assumes "int (line_count r) = sint GUM_SCRIPT_RUNTIME_SOURCE_LINE_COUNT"
    and "sint line = int (line_at (r @ [CHR 0x0A] @ s) (length r + 1 + i))"
  shows "sint (line - GUM_SCRIPT_RUNTIME_SOURCE_LINE_COUNT) = int (line_at s i)"
proof -
  have l: "sint line = int (line_count r) + int (line_at s i)"
    using assms(2) by (simp only: line_at_combined of_nat_add)
  have "0 \<le> sint line"
    by (simp add: l)
  then have "- (2 ^ 31) < sint line"
    by simp
  from sint_discount [OF this] l assms(1) show ?thesis
    by simp
qed

lemma discounted:
  assumes "n = sint (line - GUM_SCRIPT_RUNTIME_SOURCE_LINE_COUNT)"
  shows "(- (2 ^ 31) < sint line \<longrightarrow> n = sint line - sint GUM_SCRIPT_RUNTIME_SOURCE_LINE_COUNT)
     \<and> (int (line_count r) = sint GUM_SCRIPT_RUNTIME_SOURCE_LINE_COUNT
          \<and> sint line = int (line_at (r @ [CHR 0x0A] @ s) (length r + 1 + i))
        \<longrightarrow> n = int (line_at s i))"
proof (intro conjI impI)
  assume "- (2 ^ 31) < sint line"
  then show "n = sint line - sint GUM_SCRIPT_RUNTIME_SOURCE_LINE_COUNT"
    unfolding assms by (rule sint_discount)
next
  assume a: "int (line_count r) = sint GUM_SCRIPT_RUNTIME_SOURCE_LINE_COUNT
          \<and> sint line = int (line_at (r @ [CHR 0x0A] @ s) (length r + 1 + i))"
  show "n = int (line_at s i)"
    unfolding assms by (rule user_line [OF conjunct1 [OF a] conjunct2 [OF a]])
qed

lemma compile_error_text:
  assumes "script_compile env (gumscript_runtime_h env @ [CHR 0x0A] @ src)
             = Some (line, exception_str)"
  shows "\<exists>e p.
     gum_script_from_string env src True = Inr (None, Some e, Some p)
     \<and> context p = None \<and> raw_script p = None
     \<and> message e = ''Script(line ''
         @ (printf_d (sint (line - GUM_SCRIPT_RUNTIME_SOURCE_LINE_COUNT)) @ ''): ''
            @ exception_str)"
  using from_string_failed [OF assms, of True]
  by (simp add: g_set_error_def script_error_message_def torn_down_fields(1-5))

lemma runtime_error_text:
  "\<exists>rest.
     emitted (calls (ScriptScope_dtor env (Some (line, exception_str)) q))
       = emitted (calls q)
         @ [[CHR ''{'', CHR 0x22] @ ''type'' @ [CHR 0x22, CHR '':'', CHR 0x22] @ ''error''
            @ [CHR 0x22, CHR '','', CHR 0x22] @ ''lineNumber'' @ [CHR 0x22, CHR '':'']
            @ rest]
     \<and> rest = printf_d (sint (line - GUM_SCRIPT_RUNTIME_SOURCE_LINE_COUNT))
         @ [CHR '','', CHR 0x22] @ ''description'' @ [CHR 0x22, CHR '':'', CHR 0x22]
         @ g_strescape env exception_str @ [CHR 0x22, CHR ''}'']"
  by (simp add: emitted_dtor error_json_def)

subsection \<open>The sample data evaluated\<close>

lemma sample_script_rebuilt:
  "rebuilt sample_environment (gum_script_init sample_source) = sample_script"
  by (simp add: rebuilt_def sample_script_def gum_script_init_def sample_environment_def
      combined_source_def)

lemma sample_script_created:
  "gum_script_create_context sample_environment (gum_script_init sample_source) error =
     Inr (True, None, sample_script)"
proof -
  have c: "context (gum_script_init sample_source) = None"
    by (simp add: gum_script_init_def)
  have k: "script_compile sample_environment
      (combined_source sample_environment (gum_script_init sample_source)) = None"
    by (simp add: sample_environment_def sample_source_def combined_source_def
        gum_script_init_def)
  show ?thesis
    by (simp only: create_context_ok [OF c k] sample_script_rebuilt)
qed

lemma sample_compiles:
  "script_compile sample_environment
     (combined_source sample_environment (gum_script_init sample_source)) = None"
  by (simp add: sample_environment_def sample_source_def combined_source_def
      gum_script_init_def)

lemma sample_bad_rejected:
  "script_compile sample_environment
     (gumscript_runtime_h sample_environment @ [CHR 0x0A] @ sample_bad_source)
     = Some (2, ''SyntaxError: Unexpected end of input'')"
  by (simp add: sample_environment_def sample_bad_source_def)

lemma sample_script_fields:
  "context sample_script = Some PersistentContext"
  "raw_script sample_script
     = Some (PersistentScript (''Gum.init();'' @ [CHR 0x0A] @ sample_source))"
  "\<not> loaded sample_script"
  "calls sample_script = create_context_calls (''Gum.init();'' @ [CHR 0x0A] @ sample_source)"
  by (simp_all add: sample_script_def)

lemma printf_d_1: "printf_d (sint (2 - GUM_SCRIPT_RUNTIME_SOURCE_LINE_COUNT)) = ''1''"
  by (simp add: printf_d_def GUM_SCRIPT_RUNTIME_SOURCE_LINE_COUNT_def decimal.simps)

lemma sample_strescape: "g_strescape sample_environment s = s"
  by (simp add: sample_environment_def)

lemma sample_script_emitted: "emitted (calls sample_script) = []"
  by (simp add: sample_script_fields create_context_calls_def)

lemma printf_d_2: "printf_d (sint (3 - GUM_SCRIPT_RUNTIME_SOURCE_LINE_COUNT)) = ''2''"
  by (simp add: printf_d_def GUM_SCRIPT_RUNTIME_SOURCE_LINE_COUNT_def decimal.simps)

lemma sample_runtime_lines:
  "int (line_count (gumscript_runtime_h sample_environment))
     = sint GUM_SCRIPT_RUNTIME_SOURCE_LINE_COUNT"
  by (simp add: sample_environment_def line_count_def GUM_SCRIPT_RUNTIME_SOURCE_LINE_COUNT_def)

lemma sample_bad_2_rejected:
  "script_compile sample_environment
     (gumscript_runtime_h sample_environment @ [CHR 0x0A] @ sample_bad_source_2)
     = Some (3, ''SyntaxError: Unexpected end of input'')"
  by (simp add: sample_environment_def sample_bad_source_2_def)

lemma sample_bad_2_line:
  "sint (3 :: 32 word)
     = int (line_at (gumscript_runtime_h sample_environment @ [CHR 0x0A] @ sample_bad_source_2)
              (length (gumscript_runtime_h sample_environment) + 1 + 7))"
  by (simp add: line_at_combined line_count_def line_at_def sample_environment_def
      sample_bad_source_2_def)


lemma sample_script_line:
  "sint (2 :: 32 word)
     = int (line_at (gumscript_runtime_h sample_environment @ [CHR 0x0A] @ source sample_script)
              (length (gumscript_runtime_h sample_environment) + 1 + 0))"
  by (simp add: line_at_combined line_count_def line_at_def sample_environment_def
      sample_script_def)




subsection \<open>Create\<close>




subsection \<open>Uncaught exceptions\<close>

text \<open>
  C2. Take an instance with a context and a compiled program that is not loaded, and let
  load run the program. Whatever calls back into load the program makes, if it ends with
  an uncaught exception then load returns normally (the exception does not reach the
  caller) and exactly one message has been handed to the core binding's emit function
  since load was called: the text \<^verbatim>\<open>{"type":"error","lineNumber":N,"description":"D"}\<close>
  with \<open>N\<close> the engine's line less \<^verbatim>\<open>GUM_SCRIPT_RUNTIME_SOURCE_LINE_COUNT\<close>, as
  the machine subtracts, and \<open>D\<close> the escaped exception text. If the program ends without an exception, no message
  is emitted. The same holds for the destructor of any execution scope on any instance.
\<close>

theorem uncaught_exception_one_message:
  assumes "raw_script priv \<noteq> None" and "context priv \<noteq> None" and "\<not> loaded priv"
  shows "(\<exists>p. gum_script_load env (Behaviour cs (Some (line, exception_str))) priv = Inr p
        \<and> emitted (calls p) = emitted (calls priv)
            @ [[CHR ''{'', CHR 0x22] @ ''type'' @ [CHR 0x22, CHR '':'', CHR 0x22] @ ''error''
               @ [CHR 0x22, CHR '','', CHR 0x22] @ ''lineNumber'' @ [CHR 0x22, CHR '':'']
               @ printf_d (sint (line - GUM_SCRIPT_RUNTIME_SOURCE_LINE_COUNT))
               @ [CHR '','', CHR 0x22] @ ''description'' @ [CHR 0x22, CHR '':'', CHR 0x22]
               @ g_strescape env exception_str @ [CHR 0x22, CHR ''}'']])
     \<and> (\<exists>p. gum_script_load env (Behaviour cs None) priv = Inr p
        \<and> emitted (calls p) = emitted (calls priv))
     \<and> emitted (calls (ScriptScope_dtor env (Some (line, exception_str)) q))
         = emitted (calls q)
           @ [error_json (sint (line - GUM_SCRIPT_RUNTIME_SOURCE_LINE_COUNT))
                (g_strescape env exception_str)]
     \<and> emitted (calls (ScriptScope_dtor env None q)) = emitted (calls q)"
  by (simp add: load_fresh [OF assms] emitted_dtor emitted_at_run error_json_def)

text \<open>
  On the sample data, an exception \<^verbatim>\<open>Error: boom\<close> on line 2 of the combined text
  gives the one message \<^verbatim>\<open>{"type":"error","lineNumber":1,"description":"Error: boom"}\<close>.
\<close>

theorem uncaught_exception_one_message_witness:
  "raw_script sample_script \<noteq> None \<and> context sample_script \<noteq> None \<and> \<not> loaded sample_script
   \<and> (\<exists>p. gum_script_load sample_environment sample_behaviour sample_script = Inr p
        \<and> emitted (calls p) =
            [[CHR ''{'', CHR 0x22] @ ''type'' @ [CHR 0x22, CHR '':'', CHR 0x22] @ ''error''
             @ [CHR 0x22, CHR '','', CHR 0x22] @ ''lineNumber'' @ [CHR 0x22, CHR '':'']
             @ ''1''
             @ [CHR '','', CHR 0x22] @ ''description'' @ [CHR 0x22, CHR '':'', CHR 0x22]
             @ ''Error: boom'' @ [CHR 0x22, CHR ''}'']])"
proof -
  have a: "raw_script sample_script \<noteq> None" and b: "context sample_script \<noteq> None"
    and c: "\<not> loaded sample_script"
    by (simp_all add: sample_script_fields)
  from uncaught_exception_one_message [OF a b c, of sample_environment
      "CallLoad (Behaviour Return None) Return" 2 "''Error: boom''"] a b c
  show ?thesis
    by (simp add: sample_behaviour_def printf_d_1 sample_strescape sample_script_emitted)
qed

subsection \<open>Loading twice\<close>

text \<open>
  C3. Take an instance that is not loaded, whose context and compiled program are both
  present or both absent, and whose source compiles in case the program is absent. The
  first load returns normally, leaves the instance loaded and runs the program exactly
  once; a second load, whatever the program would do, returns the very same instance:
  no field and no recorded call changes. More generally load is the identity on every
  loaded instance that has a compiled program.
\<close>

theorem load_twice_runs_once:
  assumes "(context priv = None) = (raw_script priv = None)"
    and "\<not> loaded priv"
    and "raw_script priv = None \<Longrightarrow> script_compile env (combined_source env priv) = None"
  shows "(\<exists>p. gum_script_load env b1 priv = Inr p \<and> loaded p
            \<and> gum_script_load env b2 p = Inr p
            \<and> count_list (calls p) ScriptRun = count_list (calls priv) ScriptRun + 1)
         \<and> (\<forall>q. loaded q \<and> raw_script q \<noteq> None \<longrightarrow> gum_script_load env b2 q = Inr q)"
proof -
  from load_once [OF assms, of b1] obtain p where
    p: "gum_script_load env b1 priv = Inr p" "loaded p" "raw_script p \<noteq> None"
      "count_list (calls p) ScriptRun = count_list (calls priv) ScriptRun + 1"
    by blast
  have "gum_script_load env b2 p = Inr p"
    using p(2,3) by (simp add: load_loaded)
  with p show ?thesis
    by (simp add: load_loaded)
qed

text \<open>
  On the sample data: a fresh instance without context, loaded twice, has run its program
  once.
\<close>

theorem load_twice_runs_once_witness:
  "(context (gum_script_init sample_source) = None)
      = (raw_script (gum_script_init sample_source) = None)
   \<and> \<not> loaded (gum_script_init sample_source)
   \<and> script_compile sample_environment
        (combined_source sample_environment (gum_script_init sample_source)) = None
   \<and> (\<exists>p. gum_script_load sample_environment sample_behaviour (gum_script_init sample_source)
              = Inr p
          \<and> loaded p
          \<and> gum_script_load sample_environment sample_behaviour p = Inr p
          \<and> count_list (calls p) ScriptRun = 1)"
proof -
  have a: "(context (gum_script_init sample_source) = None)
      = (raw_script (gum_script_init sample_source) = None)"
    and b: "\<not> loaded (gum_script_init sample_source)"
    and c: "calls (gum_script_init sample_source) = []"
    by (simp_all add: gum_script_init_def)
  from load_twice_runs_once [OF a b sample_compiles, of sample_behaviour sample_behaviour]
  show ?thesis
    using a b c sample_compiles by simp
qed

subsection \<open>Teardown order\<close>

text \<open>
  C4. Teardown of an instance that has a context returns normally, and the calls it adds
  are, in this order: entering the context, the flush of the core binding, the dispose
  call of every binding in the reverse of the order in which context creation made the
  init calls, leaving the context, the release of the compiled program and of the
  context, and the finalize call of every binding in that same reverse order. The reverse
  order is instruction, symbol, stalker, interceptor, socket, file, module, thread,
  process, memory, core; afterwards neither a compiled program nor a context remains.
\<close>

theorem teardown_reverses_init_order:
  assumes "context priv \<noteq> None"
    and "gum_script_create_context env (gum_script_init src) error = Inr (ok, err, created)"
  shows "\<exists>p. gum_script_destroy_context priv = Inr p
    \<and> calls p = calls priv @ [ContextScopeEnter, CoreFlush]
        @ map Dispose (rev (inits (calls created)))
        @ [ContextScopeLeave, DeleteRawScript, DeleteContext]
        @ map Finalize (rev (inits (calls created)))
    \<and> rev (inits (calls created)) =
        [Instruction, Symbol, Stalker, Interceptor, Socket, File, Module, Thread, Process,
         Memory, Core]
    \<and> raw_script p = None \<and> context p = None"
  by (simp add: destroy_context_result [OF assms(1)] inits_created [OF assms(2)]
      destroy_context_calls_def)

text \<open>
  On the sample data: the instance created from the sample source, torn down.
\<close>

theorem teardown_reverses_init_order_witness:
  "context sample_script \<noteq> None
   \<and> gum_script_create_context sample_environment (gum_script_init sample_source) False =
       Inr (True, None, sample_script)
   \<and> (\<exists>p. gum_script_destroy_context sample_script = Inr p
        \<and> calls p = calls sample_script @ [ContextScopeEnter, CoreFlush]
            @ map Dispose (rev (inits (calls sample_script)))
            @ [ContextScopeLeave, DeleteRawScript, DeleteContext]
            @ map Finalize (rev (inits (calls sample_script)))
        \<and> rev (inits (calls sample_script)) =
            [Instruction, Symbol, Stalker, Interceptor, Socket, File, Module, Thread, Process,
             Memory, Core]
        \<and> raw_script p = None \<and> context p = None)"
proof -
  have a: "context sample_script \<noteq> None"
    by (simp add: sample_script_def)
  note b = sample_script_created [of False]
  from a b teardown_reverses_init_order [OF a b] show ?thesis
    by blast
qed

subsection \<open>Context and program together\<close>

text \<open>
  C5. Call an instance consistent when its context and its compiled program are both
  present or both absent and it is loaded only if the compiled program is present.
  Create returns normally, and the handle it returns, or the instance it released, is
  consistent. On a consistent instance load, unload and dispose return normally with a
  consistent instance.
\<close>

theorem context_and_program_together:
  "(\<exists>script err unreffed. gum_script_from_string env src error = Inr (script, err, unreffed)
      \<and> (\<forall>p. script = Some p \<or> unreffed = Some p \<longrightarrow>
            (context p = None) = (raw_script p = None) \<and> (loaded p \<longrightarrow> raw_script p \<noteq> None)))
   \<and> ((context priv = None) = (raw_script priv = None) \<and> (loaded priv \<longrightarrow> raw_script priv \<noteq> None)
      \<longrightarrow>
        (\<exists>p. gum_script_load env b priv = Inr p
           \<and> (context p = None) = (raw_script p = None) \<and> (loaded p \<longrightarrow> raw_script p \<noteq> None))
      \<and> (\<exists>p. gum_script_unload priv = Inr p
           \<and> (context p = None) = (raw_script p = None) \<and> (loaded p \<longrightarrow> raw_script p \<noteq> None))
      \<and> (\<exists>p. gum_script_dispose priv = Inr p
           \<and> (context p = None) = (raw_script p = None) \<and> (loaded p \<longrightarrow> raw_script p \<noteq> None)))"
proof (intro conjI impI)
  show "\<exists>script err unreffed. gum_script_from_string env src error = Inr (script, err, unreffed)
      \<and> (\<forall>p. script = Some p \<or> unreffed = Some p \<longrightarrow>
            (context p = None) = (raw_script p = None) \<and> (loaded p \<longrightarrow> raw_script p \<noteq> None))"
    by (rule from_string_establishes_invariant)
next
  assume "(context priv = None) = (raw_script priv = None) \<and> (loaded priv \<longrightarrow> raw_script priv \<noteq> None)"
  then have i: "(context priv = None) = (raw_script priv = None)"
    and l: "loaded priv \<longrightarrow> raw_script priv \<noteq> None"
    by (rule conjunct1, rule conjunct2)
  show "\<exists>p. gum_script_load env b priv = Inr p
           \<and> (context p = None) = (raw_script p = None) \<and> (loaded p \<longrightarrow> raw_script p \<noteq> None)"
    by (rule load_keeps_invariant [OF i l])
  show "\<exists>p. gum_script_unload priv = Inr p
           \<and> (context p = None) = (raw_script p = None) \<and> (loaded p \<longrightarrow> raw_script p \<noteq> None)"
    by (rule unload_keeps_invariant [OF i l])
  show "\<exists>p. gum_script_dispose priv = Inr p
           \<and> (context p = None) = (raw_script p = None) \<and> (loaded p \<longrightarrow> raw_script p \<noteq> None)"
    by (rule dispose_keeps_invariant [OF i l])
qed

text \<open>
  On the sample data: the sample instance is consistent, and so are the results of load,
  unload, dispose and create.
\<close>

theorem context_and_program_together_witness:
  "(context sample_script = None) = (raw_script sample_script = None)
   \<and> raw_script sample_script \<noteq> None
   \<and> (\<exists>p. gum_script_load sample_environment sample_behaviour sample_script = Inr p
          \<and> (context p = None) = (raw_script p = None) \<and> (loaded p \<longrightarrow> raw_script p \<noteq> None))
   \<and> (\<exists>p. gum_script_unload sample_script = Inr p
          \<and> (context p = None) = (raw_script p = None) \<and> (loaded p \<longrightarrow> raw_script p \<noteq> None))
   \<and> (\<exists>p. gum_script_dispose sample_script = Inr p
          \<and> (context p = None) = (raw_script p = None) \<and> (loaded p \<longrightarrow> raw_script p \<noteq> None))
   \<and> (\<exists>p. gum_script_from_string sample_environment sample_source True = Inr (Some p, None, None)
          \<and> (context p = None) = (raw_script p = None) \<and> (loaded p \<longrightarrow> raw_script p \<noteq> None))"
proof -
  let ?I = "\<lambda>p. (context p = None) = (raw_script p = None) \<and> (loaded p \<longrightarrow> raw_script p \<noteq> None)"
  have i: "(context sample_script = None) = (raw_script sample_script = None)"
    and r: "raw_script sample_script \<noteq> None"
    by (simp_all add: sample_script_fields)
  have a: "?I sample_script"
    by (simp add: sample_script_fields)
  note t = context_and_program_together
    [of sample_environment sample_source True sample_script sample_behaviour]
  from t have "?I sample_script \<longrightarrow>
      (\<exists>p. gum_script_load sample_environment sample_behaviour sample_script = Inr p \<and> ?I p)
      \<and> (\<exists>p. gum_script_unload sample_script = Inr p \<and> ?I p)
      \<and> (\<exists>p. gum_script_dispose sample_script = Inr p \<and> ?I p)"
    by (rule conjunct2)
  from this a have ops:
    "(\<exists>p. gum_script_load sample_environment sample_behaviour sample_script = Inr p \<and> ?I p)
      \<and> (\<exists>p. gum_script_unload sample_script = Inr p \<and> ?I p)
      \<and> (\<exists>p. gum_script_dispose sample_script = Inr p \<and> ?I p)"
    by (rule mp)
  have k: "script_compile sample_environment
      (gumscript_runtime_h sample_environment @ [CHR 0x0A] @ sample_source) = None"
    using sample_compiles by (simp add: combined_source_init)
  have f: "gum_script_from_string sample_environment sample_source True
      = Inr (Some (rebuilt sample_environment (gum_script_init sample_source)), None, None)"
    by (rule from_string_ok [OF k])
  let ?X = "rebuilt sample_environment (gum_script_init sample_source)"
  from t have "\<exists>script err unreffed.
      gum_script_from_string sample_environment sample_source True = Inr (script, err, unreffed)
      \<and> (\<forall>p. script = Some p \<or> unreffed = Some p \<longrightarrow> ?I p)"
    by (rule conjunct1)
  then obtain script err unreffed where
    g: "gum_script_from_string sample_environment sample_source True
          = Inr (script, err, unreffed)"
    and h: "\<forall>p. script = Some p \<or> unreffed = Some p \<longrightarrow> ?I p"
    by (elim exE conjE)
  from g f have s: "script = Some ?X"
    by simp
  from h have hx: "script = Some ?X \<or> unreffed = Some ?X \<longrightarrow> ?I ?X"
    by (rule spec)
  from s have sx: "script = Some ?X \<or> unreffed = Some ?X"
    by (rule disjI1)
  from hx sx have ix: "?I ?X"
    by (rule mp)
  have c: "\<exists>p. gum_script_from_string sample_environment sample_source True
      = Inr (Some p, None, None) \<and> ?I p"
    by (rule exI [of _ ?X]) (rule conjI [OF f ix])
  from ops have l: "\<exists>p. gum_script_load sample_environment sample_behaviour sample_script = Inr p
      \<and> ?I p"
    by (rule conjunct1)
  from ops have ud: "(\<exists>p. gum_script_unload sample_script = Inr p \<and> ?I p)
      \<and> (\<exists>p. gum_script_dispose sample_script = Inr p \<and> ?I p)"
    by (rule conjunct2)
  from ud have u: "\<exists>p. gum_script_unload sample_script = Inr p \<and> ?I p"
    by (rule conjunct1)
  from ud have d: "\<exists>p. gum_script_dispose sample_script = Inr p \<and> ?I p"
    by (rule conjunct2)
  show ?thesis
    by (rule conjI [OF i conjI [OF r conjI [OF l conjI [OF u conjI [OF d c]]]]])
qed

subsection \<open>Reported line numbers\<close>

text \<open>
  C6. When the engine rejects the combined source with line number \<open>line\<close>, create
  called with an error location returns a null handle and the error text
  \<^verbatim>\<open>Script(line N): exception\<close>; when an execution scope ends with an uncaught
  exception whose message has line number \<open>line\<close>, the one message it emits carries
  \<open>N\<close> as \<^verbatim>\<open>lineNumber\<close>. In both, the number read back from the text is the
  machine difference of \<open>line\<close> and \<^verbatim>\<open>GUM_SCRIPT_RUNTIME_SOURCE_LINE_COUNT\<close>. Unless
  \<open>line\<close> is the least \<^verbatim>\<open>int\<close>, that is the engine's line number minus the
  constant. And when the runtime text has as many lines as the constant says and the
  engine's line is the line of a position of the user's source within the combined text,
  the number is the line of that position within the user's own source: the runtime's
  lines are not counted. The constant is 1.
\<close>

theorem reported_lines_discount_runtime:
  "(script_compile env (gumscript_runtime_h env @ [CHR 0x0A] @ src) = Some (line, exception_str)
      \<longrightarrow> (\<exists>e unreffed rest.
             gum_script_from_string env src True = Inr (None, Some e, unreffed)
             \<and> message e = ''Script(line '' @ rest
             \<and> rest = printf_d (sint (line - GUM_SCRIPT_RUNTIME_SOURCE_LINE_COUNT))
                 @ ''): '' @ exception_str
             \<and> read_d rest = sint (line - GUM_SCRIPT_RUNTIME_SOURCE_LINE_COUNT)
             \<and> (- (2 ^ 31) < sint line \<longrightarrow>
                  read_d rest = sint line - sint GUM_SCRIPT_RUNTIME_SOURCE_LINE_COUNT)
             \<and> (int (line_count (gumscript_runtime_h env))
                    = sint GUM_SCRIPT_RUNTIME_SOURCE_LINE_COUNT
                  \<and> sint line = int (line_at (gumscript_runtime_h env @ [CHR 0x0A] @ src)
                                        (length (gumscript_runtime_h env) + 1 + i))
                \<longrightarrow> read_d rest = int (line_at src i))))
   \<and> (\<exists>rest.
         emitted (calls (ScriptScope_dtor env (Some (line, exception_str)) q))
           = emitted (calls q)
             @ [[CHR ''{'', CHR 0x22] @ ''type'' @ [CHR 0x22, CHR '':'', CHR 0x22] @ ''error''
                @ [CHR 0x22, CHR '','', CHR 0x22] @ ''lineNumber'' @ [CHR 0x22, CHR '':'']
                @ rest]
         \<and> rest = printf_d (sint (line - GUM_SCRIPT_RUNTIME_SOURCE_LINE_COUNT))
             @ [CHR '','', CHR 0x22] @ ''description'' @ [CHR 0x22, CHR '':'', CHR 0x22]
             @ g_strescape env exception_str @ [CHR 0x22, CHR ''}'']
         \<and> read_d rest = sint (line - GUM_SCRIPT_RUNTIME_SOURCE_LINE_COUNT)
         \<and> (- (2 ^ 31) < sint line \<longrightarrow>
              read_d rest = sint line - sint GUM_SCRIPT_RUNTIME_SOURCE_LINE_COUNT)
         \<and> (int (line_count (gumscript_runtime_h env))
                = sint GUM_SCRIPT_RUNTIME_SOURCE_LINE_COUNT
              \<and> sint line = int (line_at (gumscript_runtime_h env @ [CHR 0x0A] @ source q)
                                    (length (gumscript_runtime_h env) + 1 + i))
            \<longrightarrow> read_d rest = int (line_at (source q) i)))
   \<and> sint GUM_SCRIPT_RUNTIME_SOURCE_LINE_COUNT = 1"
proof (intro conjI impI)
  let ?n = "sint (line - GUM_SCRIPT_RUNTIME_SOURCE_LINE_COUNT)"
  let ?rest = "printf_d ?n @ ''): '' @ exception_str"
  assume "script_compile env (gumscript_runtime_h env @ [CHR 0x0A] @ src)
            = Some (line, exception_str)"
  from compile_error_text [OF this] obtain e p where
    f: "gum_script_from_string env src True = Inr (None, Some e, Some p)"
    and m: "message e = ''Script(line '' @ ?rest"
    by blast
  have r: "read_d ?rest = ?n"
    by (rule read_d_script_rest)
  note d = discounted [OF r, of "gumscript_runtime_h env" src i]
  show "\<exists>e unreffed rest.
             gum_script_from_string env src True = Inr (None, Some e, unreffed)
             \<and> message e = ''Script(line '' @ rest
             \<and> rest = printf_d (sint (line - GUM_SCRIPT_RUNTIME_SOURCE_LINE_COUNT))
                 @ ''): '' @ exception_str
             \<and> read_d rest = sint (line - GUM_SCRIPT_RUNTIME_SOURCE_LINE_COUNT)
             \<and> (- (2 ^ 31) < sint line \<longrightarrow>
                  read_d rest = sint line - sint GUM_SCRIPT_RUNTIME_SOURCE_LINE_COUNT)
             \<and> (int (line_count (gumscript_runtime_h env))
                    = sint GUM_SCRIPT_RUNTIME_SOURCE_LINE_COUNT
                  \<and> sint line = int (line_at (gumscript_runtime_h env @ [CHR 0x0A] @ src)
                                        (length (gumscript_runtime_h env) + 1 + i))
                \<longrightarrow> read_d rest = int (line_at src i))"
    by (rule exI [of _ e], rule exI [of _ "Some p"], rule exI [of _ ?rest])
      (rule conjI [OF f conjI [OF m conjI [OF refl conjI [OF r d]]]])
next
  let ?n = "sint (line - GUM_SCRIPT_RUNTIME_SOURCE_LINE_COUNT)"
  let ?rest = "printf_d ?n @ [CHR '','', CHR 0x22] @ ''description''
      @ [CHR 0x22, CHR '':'', CHR 0x22] @ g_strescape env exception_str @ [CHR 0x22, CHR ''}'']"
  from runtime_error_text [of env line exception_str q]
  have m: "emitted (calls (ScriptScope_dtor env (Some (line, exception_str)) q))
       = emitted (calls q)
         @ [[CHR ''{'', CHR 0x22] @ ''type'' @ [CHR 0x22, CHR '':'', CHR 0x22] @ ''error''
            @ [CHR 0x22, CHR '','', CHR 0x22] @ ''lineNumber'' @ [CHR 0x22, CHR '':'']
            @ ?rest]"
    by blast
  have r: "read_d ?rest = ?n"
    by (rule read_d_json_rest)
  note d = discounted [OF r, of "gumscript_runtime_h env" "source q" i]
  show "\<exists>rest.
         emitted (calls (ScriptScope_dtor env (Some (line, exception_str)) q))
           = emitted (calls q)
             @ [[CHR ''{'', CHR 0x22] @ ''type'' @ [CHR 0x22, CHR '':'', CHR 0x22] @ ''error''
                @ [CHR 0x22, CHR '','', CHR 0x22] @ ''lineNumber'' @ [CHR 0x22, CHR '':'']
                @ rest]
         \<and> rest = printf_d (sint (line - GUM_SCRIPT_RUNTIME_SOURCE_LINE_COUNT))
             @ [CHR '','', CHR 0x22] @ ''description'' @ [CHR 0x22, CHR '':'', CHR 0x22]
             @ g_strescape env exception_str @ [CHR 0x22, CHR ''}'']
         \<and> read_d rest = sint (line - GUM_SCRIPT_RUNTIME_SOURCE_LINE_COUNT)
         \<and> (- (2 ^ 31) < sint line \<longrightarrow>
              read_d rest = sint line - sint GUM_SCRIPT_RUNTIME_SOURCE_LINE_COUNT)
         \<and> (int (line_count (gumscript_runtime_h env))
                = sint GUM_SCRIPT_RUNTIME_SOURCE_LINE_COUNT
              \<and> sint line = int (line_at (gumscript_runtime_h env @ [CHR 0x0A] @ source q)
                                    (length (gumscript_runtime_h env) + 1 + i))
            \<longrightarrow> read_d rest = int (line_at (source q) i))"
    by (rule exI [of _ ?rest]) (rule conjI [OF m conjI [OF refl conjI [OF r d]]])
next
  show "sint GUM_SCRIPT_RUNTIME_SOURCE_LINE_COUNT = 1"
    by (rule sint_count)
qed

text \<open>
  On the sample data: a failure on the second line of a two-line source, which is line 3
  for the engine, is reported as line 2; an exception on the only line of the sample
  source, line 2 for the engine, is reported as line 1.
\<close>

theorem reported_lines_discount_runtime_witness:
  "script_compile sample_environment
       (gumscript_runtime_h sample_environment @ [CHR 0x0A] @ sample_bad_source_2)
     = Some (3, ''SyntaxError: Unexpected end of input'')
   \<and> int (line_count (gumscript_runtime_h sample_environment))
       = sint GUM_SCRIPT_RUNTIME_SOURCE_LINE_COUNT
   \<and> sint (3 :: 32 word)
       = int (line_at
           (gumscript_runtime_h sample_environment @ [CHR 0x0A] @ sample_bad_source_2)
           (length (gumscript_runtime_h sample_environment) + 1 + 7))
   \<and> - (2 ^ 31) < sint (3 :: 32 word)
   \<and> (\<exists>e unreffed rest.
         gum_script_from_string sample_environment sample_bad_source_2 True
           = Inr (None, Some e, unreffed)
         \<and> message e = ''Script(line '' @ rest
         \<and> rest = ''2): SyntaxError: Unexpected end of input''
         \<and> read_d rest = 2
         \<and> read_d rest = int (line_at sample_bad_source_2 7))
   \<and> sint (2 :: 32 word)
       = int (line_at
           (gumscript_runtime_h sample_environment @ [CHR 0x0A] @ source sample_script)
           (length (gumscript_runtime_h sample_environment) + 1 + 0))
   \<and> (\<exists>rest.
         emitted (calls (ScriptScope_dtor sample_environment (Some (2, ''Error: boom''))
                           sample_script))
           = [[CHR ''{'', CHR 0x22] @ ''type'' @ [CHR 0x22, CHR '':'', CHR 0x22] @ ''error''
              @ [CHR 0x22, CHR '','', CHR 0x22] @ ''lineNumber'' @ [CHR 0x22, CHR '':'']
              @ rest]
         \<and> rest = ''1'' @ [CHR '','', CHR 0x22] @ ''description''
             @ [CHR 0x22, CHR '':'', CHR 0x22] @ ''Error: boom'' @ [CHR 0x22, CHR ''}'']
         \<and> read_d rest = 1
         \<and> read_d rest = int (line_at (source sample_script) 0))"
proof -
  note a = reported_lines_discount_runtime
    [of sample_environment sample_bad_source_2 3 "''SyntaxError: Unexpected end of input''"
      7 sample_script]
  note b = reported_lines_discount_runtime
    [of sample_environment sample_bad_source 2 "''Error: boom''" 0 sample_script]
  have r: "- (2 ^ 31) < sint (3 :: 32 word)"
    by simp
  from a sample_bad_2_rejected sample_runtime_lines sample_bad_2_line r
  have c: "\<exists>e unreffed rest.
         gum_script_from_string sample_environment sample_bad_source_2 True
           = Inr (None, Some e, unreffed)
         \<and> message e = ''Script(line '' @ rest
         \<and> rest = ''2): SyntaxError: Unexpected end of input''
         \<and> read_d rest = 2
         \<and> read_d rest = int (line_at sample_bad_source_2 7)"
    by (auto simp add: printf_d_2 sint_count)
  from b sample_runtime_lines sample_script_line
  have d: "\<exists>rest.
         emitted (calls (ScriptScope_dtor sample_environment (Some (2, ''Error: boom''))
                           sample_script))
           = [[CHR ''{'', CHR 0x22] @ ''type'' @ [CHR 0x22, CHR '':'', CHR 0x22] @ ''error''
              @ [CHR 0x22, CHR '','', CHR 0x22] @ ''lineNumber'' @ [CHR 0x22, CHR '':'']
              @ rest]
         \<and> rest = ''1'' @ [CHR '','', CHR 0x22] @ ''description''
             @ [CHR 0x22, CHR '':'', CHR 0x22] @ ''Error: boom'' @ [CHR 0x22, CHR ''}'']
         \<and> read_d rest = 1
         \<and> read_d rest = int (line_at (source sample_script) 0)"
    by (auto simp add: printf_d_1 sint_count sample_strescape sample_script_emitted)
  from sample_bad_2_rejected sample_runtime_lines sample_bad_2_line r c sample_script_line d
  show ?thesis
    by (intro conjI)
qed

subsection \<open>Load after a failed rebuild\<close>

text \<open>
  C7. Take an instance with no compiled program and no context whose source the engine
  rejects. Load returns normally. What it returns is the instance left by the attempt
  \<^verbatim>\<open>gum_script_create_context (self, NULL)\<close>, which returned \<^verbatim>\<open>FALSE\<close> and stored
  no error; the program has not been run, and the instance is not loaded and still has
  neither context nor compiled program. Nothing in the result of load tells the failure
  from a normal return.
\<close>

theorem load_swallows_rebuild_error:
  assumes "raw_script priv = None" and "context priv = None"
    and "script_compile env (combined_source env priv) = Some (line, exception_str)"
  shows "\<exists>p. gum_script_load env b priv = Inr p
     \<and> gum_script_create_context env priv False = Inr (False, None, p)
     \<and> count_list (calls p) ScriptRun = count_list (calls priv) ScriptRun
     \<and> \<not> loaded p \<and> raw_script p = None \<and> context p = None"
proof -
  have "gum_script_load env b priv = Inr (torn_down env priv)"
    by (rule load_rebuild_failed [OF assms(2) assms(1) assms(3)])
  moreover have "gum_script_create_context env priv False = Inr (False, None, torn_down env priv)"
    by (simp add: create_context_failed [OF assms(2) assms(1) assms(3)] g_set_error_def)
  ultimately show ?thesis
    by (simp add: torn_down_fields(1-5) count_ScriptRun_torn_down)
qed

text \<open>
  On the sample data: a fresh instance whose source the sample compiler rejects.
\<close>

theorem load_swallows_rebuild_error_witness:
  "raw_script (gum_script_init sample_bad_source) = None
   \<and> context (gum_script_init sample_bad_source) = None
   \<and> script_compile sample_environment
        (combined_source sample_environment (gum_script_init sample_bad_source))
        = Some (2, ''SyntaxError: Unexpected end of input'')
   \<and> (\<exists>p. gum_script_load sample_environment sample_behaviour (gum_script_init sample_bad_source)
              = Inr p
          \<and> gum_script_create_context sample_environment (gum_script_init sample_bad_source)
               False = Inr (False, None, p)
          \<and> count_list (calls p) ScriptRun = 0
          \<and> \<not> loaded p \<and> raw_script p = None \<and> context p = None)"
proof -
  have a: "raw_script (gum_script_init sample_bad_source) = None"
    and b: "context (gum_script_init sample_bad_source) = None"
    and c: "calls (gum_script_init sample_bad_source) = []"
    by (simp_all add: gum_script_init_def)
  have k: "script_compile sample_environment
        (combined_source sample_environment (gum_script_init sample_bad_source))
        = Some (2, ''SyntaxError: Unexpected end of input'')"
    using sample_bad_rejected by (simp add: combined_source_init)
  from load_swallows_rebuild_error [OF a b k, of sample_behaviour] a b c k
  show ?thesis
    by simp
qed

subsection \<open>The debug handler\<close>

text \<open>
  C8. Whatever the debug variables hold, registering a handler \<open>h\<close> with a release
  callback and then calling with a null handler makes the second call add exactly three
  calls: the deletion of the debug context reference, the removal of the engine's message
  hook, and one call of \<open>h\<close>'s release callback on \<open>h\<close>'s data; afterwards no
  handler, no debug context reference and no hook remain. Registering a handler while
  another is registered first deletes the context reference, removes the hook and calls
  the previous handler's release callback (if it has one) on the previous data, and only
  then installs the hook and takes a new context reference; the variables then hold the
  new handler, its data and its release callback, so one handler is registered at a time.
\<close>

theorem debug_handler_released_once:
  "debug_calls
      (gum_script_set_debug_message_handler None data' notify'
         (gum_script_set_debug_message_handler (Some h) data (Some release) g))
     = debug_calls (gum_script_set_debug_message_handler (Some h) data (Some release) g)
       @ [DeleteDebugContext, SetMessageHandler False, Notify release data]
   \<and> gum_debug_handler
        (gum_script_set_debug_message_handler None data' notify'
           (gum_script_set_debug_message_handler (Some h) data (Some release) g)) = None
   \<and> gum_debug_context
        (gum_script_set_debug_message_handler None data' notify'
           (gum_script_set_debug_message_handler (Some h) data (Some release) g)) = None
   \<and> \<not> message_handler
        (gum_script_set_debug_message_handler None data' notify'
           (gum_script_set_debug_message_handler (Some h) data (Some release) g))
   \<and> (gum_debug_handler g \<noteq> None \<longrightarrow>
        debug_calls (gum_script_set_debug_message_handler (Some h) data notify g)
          = debug_calls g
            @ [DeleteDebugContext, SetMessageHandler False]
            @ (case gum_debug_notify g of Some n \<Rightarrow> [Notify n (gum_debug_data g)] | None \<Rightarrow> [])
            @ [SetMessageHandler True, GetDebugContext])
   \<and> (gum_debug_handler g = None \<longrightarrow>
        debug_calls (gum_script_set_debug_message_handler (Some h) data notify g)
          = debug_calls g @ [SetMessageHandler True, GetDebugContext])
   \<and> gum_debug_handler (gum_script_set_debug_message_handler (Some h) data notify g) = Some h
   \<and> gum_debug_data (gum_script_set_debug_message_handler (Some h) data notify g) = data
   \<and> gum_debug_notify (gum_script_set_debug_message_handler (Some h) data notify g) = notify"
  by (simp add: set_handler_calls set_handler_some set_handler_none)

text \<open>
  On the sample data: starting with no handler, register and unregister; and register a
  second handler over a first.
\<close>

theorem debug_handler_released_once_witness:
  "gum_debug_handler debug_globals_init = None
   \<and> debug_calls
        (gum_script_set_debug_message_handler None None None
           (gum_script_set_debug_message_handler (Some 1) (Some 2) (Some 3)
              debug_globals_init))
       = [SetMessageHandler True, GetDebugContext,
          DeleteDebugContext, SetMessageHandler False, Notify 3 (Some 2)]
   \<and> gum_debug_handler (gum_script_set_debug_message_handler (Some 1) (Some 2) (Some 3)
         debug_globals_init) \<noteq> None
   \<and> debug_calls
        (gum_script_set_debug_message_handler (Some 4) (Some 5) (Some 6)
           (gum_script_set_debug_message_handler (Some 1) (Some 2) (Some 3)
              debug_globals_init))
       = [SetMessageHandler True, GetDebugContext,
          DeleteDebugContext, SetMessageHandler False, Notify 3 (Some 2),
          SetMessageHandler True, GetDebugContext]"
proof -
  have a: "gum_debug_handler debug_globals_init = None"
    and b: "debug_calls debug_globals_init = []"
    by (simp_all add: debug_globals_init_def)
  note first = debug_handler_released_once
    [of None None 1 "Some 2" 3 debug_globals_init "Some 3"]
  note second = debug_handler_released_once
    [of None None 4 "Some 5" 6
      "gum_script_set_debug_message_handler (Some 1) (Some 2) (Some 3) debug_globals_init"
      "Some 6"]
  from first second a b show ?thesis
    by simp
qed

subsection \<open>Signalling the tracer\<close>

text \<open>
  C9. The destructor of an execution scope, with or without a caught exception, adds the
  calls of the implementation's destructor, none of which signals the tracer, followed by
  exactly one call of the stalker binding's process-pending hook. Hence a load that runs
  the program, whether or not the program raises, returns with exactly one more call of
  that hook than before, and that call is the last one made.
\<close>

theorem scope_exit_signals_tracer_once:
  "calls (ScriptScope_dtor env trycatch q)
      = calls (ScriptScopeImpl_dtor env trycatch q) @ [StalkerProcessPending]
   \<and> count_list (calls (ScriptScopeImpl_dtor env trycatch q)) StalkerProcessPending
      = count_list (calls q) StalkerProcessPending
   \<and> count_list (calls (ScriptScope_dtor env trycatch q)) StalkerProcessPending
      = count_list (calls q) StalkerProcessPending + 1
   \<and> (raw_script priv \<noteq> None \<and> context priv \<noteq> None \<and> \<not> loaded priv \<longrightarrow>
        (\<exists>p. gum_script_load env (Behaviour cs trycatch) priv = Inr p
           \<and> count_list (calls p) StalkerProcessPending
               = count_list (calls priv) StalkerProcessPending + 1
           \<and> last (calls p) = StalkerProcessPending))"
proof (intro conjI impI)
  show "calls (ScriptScope_dtor env trycatch q)
      = calls (ScriptScopeImpl_dtor env trycatch q) @ [StalkerProcessPending]"
    by (simp add: ScriptScope_dtor_def record_call_def)
  show "count_list (calls (ScriptScopeImpl_dtor env trycatch q)) StalkerProcessPending
      = count_list (calls q) StalkerProcessPending"
    by (simp add: ScriptScopeImpl_dtor_def record_call_def Let_def split: option.splits)
  show "count_list (calls (ScriptScope_dtor env trycatch q)) StalkerProcessPending
      = count_list (calls q) StalkerProcessPending + 1"
    by (rule count_pending_dtor)
next
  assume "raw_script priv \<noteq> None \<and> context priv \<noteq> None \<and> \<not> loaded priv"
  then have a: "raw_script priv \<noteq> None" "context priv \<noteq> None" "\<not> loaded priv"
    by simp_all
  show "\<exists>p. gum_script_load env (Behaviour cs trycatch) priv = Inr p
           \<and> count_list (calls p) StalkerProcessPending
               = count_list (calls priv) StalkerProcessPending + 1
           \<and> last (calls p) = StalkerProcessPending"
    by (simp add: load_fresh [OF a] count_pending_dtor ScriptScope_dtor_calls
        at_run_fields(6))
qed

text \<open>
  On the sample data: the sample program raises, and load ends with the one call of the
  hook.
\<close>

theorem scope_exit_signals_tracer_once_witness:
  "raw_script sample_script \<noteq> None \<and> context sample_script \<noteq> None \<and> \<not> loaded sample_script
   \<and> (\<exists>p. gum_script_load sample_environment sample_behaviour sample_script = Inr p
          \<and> count_list (calls p) StalkerProcessPending = 1
          \<and> last (calls p) = StalkerProcessPending)"
proof -
  have a: "raw_script sample_script \<noteq> None \<and> context sample_script \<noteq> None
      \<and> \<not> loaded sample_script"
    by (simp add: sample_script_fields)
  have n: "count_list (calls sample_script) StalkerProcessPending = 0"
    by (simp add: sample_script_fields create_context_calls_def)
  from scope_exit_signals_tracer_once [of sample_environment "Some (2, ''Error: boom'')"
      sample_script sample_script "CallLoad (Behaviour Return None) Return"] a n
  show ?thesis
    by (simp add: sample_behaviour_def)
qed

subsection \<open>The loaded flag and re-entrant load\<close>

text \<open>
  C10. Take an instance with a context and a compiled program that is not loaded. At the
  moment load calls \<^verbatim>\<open>raw_script->Run ()\<close> the instance is already marked loaded.
  Every call of load on the instance in that state returns it unchanged, so whatever
  sequence of re-entrant load calls the program makes, running them leaves the instance
  as it was: load gives the same result as for a program that makes no such call, and
  the program has run exactly once when load returns.
\<close>

theorem loaded_before_run:
  assumes "raw_script priv \<noteq> None" and "context priv \<noteq> None" and "\<not> loaded priv"
  shows "loaded (at_run priv)
     \<and> calls (at_run priv) = calls priv @ [ContextScopeEnter, ScriptRun]
     \<and> (\<forall>b. gum_script_load env b (at_run priv) = Inr (at_run priv))
     \<and> Run env cs (at_run priv) = Inr (at_run priv)
     \<and> gum_script_load env (Behaviour cs exn) priv = Inr (ScriptScope_dtor env exn (at_run priv))
     \<and> gum_script_load env (Behaviour cs exn) priv = gum_script_load env (Behaviour Return exn) priv
     \<and> count_list (calls (ScriptScope_dtor env exn (at_run priv))) ScriptRun
         = count_list (calls priv) ScriptRun + 1"
proof -
  have r: "raw_script (at_run priv) \<noteq> None" and l: "loaded (at_run priv)"
    using assms(1) by (simp_all add: at_run_fields)
  have "\<forall>b. gum_script_load env b (at_run priv) = Inr (at_run priv)"
    using r l by (simp add: load_loaded)
  moreover have "Run env cs (at_run priv) = Inr (at_run priv)"
    using r l by (rule Run_loaded)
  moreover have "gum_script_load env (Behaviour cs exn) priv
      = Inr (ScriptScope_dtor env exn (at_run priv))"
    by (rule load_fresh [OF assms])
  moreover have "gum_script_load env (Behaviour Return exn) priv
      = Inr (ScriptScope_dtor env exn (at_run priv))"
    by (rule load_fresh [OF assms])
  ultimately show ?thesis
    using l by (simp add: at_run_fields(6) count_ScriptRun_dtor count_ScriptRun_at_run)
qed

text \<open>
  On the sample data: the sample program calls load once while it runs.
\<close>

theorem loaded_before_run_witness:
  "raw_script sample_script \<noteq> None \<and> context sample_script \<noteq> None \<and> \<not> loaded sample_script
   \<and> loaded (at_run sample_script)
   \<and> gum_script_load sample_environment (Behaviour Return None) (at_run sample_script)
       = Inr (at_run sample_script)
   \<and> Run sample_environment (CallLoad (Behaviour Return None) Return) (at_run sample_script)
       = Inr (at_run sample_script)
   \<and> gum_script_load sample_environment sample_behaviour sample_script
       = gum_script_load sample_environment
           (Behaviour Return (Some (2, ''Error: boom''))) sample_script
   \<and> count_list
        (calls (ScriptScope_dtor sample_environment (Some (2, ''Error: boom''))
                  (at_run sample_script))) ScriptRun = 1"
proof -
  have a: "raw_script sample_script \<noteq> None" and b: "context sample_script \<noteq> None"
    and c: "\<not> loaded sample_script"
    by (simp_all add: sample_script_fields)
  have n: "count_list (calls sample_script) ScriptRun = 0"
    by (simp add: sample_script_fields create_context_calls_def)
  from loaded_before_run [OF a b c, of sample_environment
      "CallLoad (Behaviour Return None) Return" "Some (2, ''Error: boom'')"] a b c n
  show ?thesis
    unfolding sample_behaviour_def by auto
qed

end
